theory Spec2Isabelle
  imports Main "HOL-Library.AList"
begin

section \<open>Data model (types.ts)\<close>

text \<open>
  The records follow \<^verbatim>\<open>src/types.ts\<close>. Field names that would clash between two
  records, or with a constant of HOL, carry the record's name as a prefix.
\<close>

datatype UserRole = Manager | Supervisor | Rep

record User =
  user_id :: string
  user_name :: string
  username :: string
  role :: UserRole

record Doctor =
  doctor_id :: int
  doctor_name :: string
  doctor_regionId :: int
  doctor_repId :: string
  specialization :: string

record DayPlanDetails =
  regionId :: int
  doctorIds :: "int list"

datatype PlanStatus = draft | pending | approved | rejected

text \<open>
  \<^verbatim>\<open>WeeklyPlan['plan']\<close> is a JavaScript object indexed by day number whose values are
  \<^verbatim>\<open>DayPlanDetails | null\<close>. It is modelled as an association list: a key that is not
  in the list is a missing key (\<^verbatim>\<open>undefined\<close>), the value \<open>None\<close> is the explicit
  \<^verbatim>\<open>null\<close> marker and \<open>Some details\<close> is an assignment. Reading \<^verbatim>\<open>plan[k]\<close> is
  \<open>map_of plan k\<close>, writing \<^verbatim>\<open>plan[k] = v\<close> is \<open>AList.update k v plan\<close>, and
  \<^verbatim>\<open>Object.values(plan)\<close> is \<open>map snd plan\<close>.
\<close>

type_synonym plan_map = "(int \<times> DayPlanDetails option) list"

record WeeklyPlan =
  plan :: plan_map
  status :: PlanStatus

section \<open>The builtin \<^verbatim>\<open>parseInt\<close>\<close>

text \<open>
  \<^verbatim>\<open>parseInt(s)\<close> without a radix: leading white space is skipped, one sign is read, a
  prefix \<^verbatim>\<open>0x\<close> or \<^verbatim>\<open>0X\<close> selects radix 16, and the longest run of digits of the radix
  is the value. \<open>None\<close> stands for \<^verbatim>\<open>NaN\<close> (no digit was read). The value is the
  mathematical integer: the rounding of JavaScript numbers beyond \<open>2^53\<close> is not
  modelled, and white space is the ASCII white space.
\<close>

definition isWhiteSpace :: "char \<Rightarrow> bool" where
  "isWhiteSpace c \<longleftrightarrow> (of_char c :: nat) \<in> {9, 10, 11, 12, 13, 32}"

definition digitValue :: "char \<Rightarrow> nat option" where
  "digitValue c =
     (let n = (of_char c :: nat) in
      if 48 \<le> n \<and> n \<le> 57 then Some (n - 48)
      else if 97 \<le> n \<and> n \<le> 122 then Some (n - 87)
      else if 65 \<le> n \<and> n \<le> 90 then Some (n - 55)
      else None)"

definition isDigitOf :: "nat \<Rightarrow> char \<Rightarrow> bool" where
  "isDigitOf R c = (case digitValue c of None \<Rightarrow> False | Some v \<Rightarrow> v < R)"

definition digitsValue :: "nat \<Rightarrow> string \<Rightarrow> nat" where
  "digitsValue R ds =
     foldl (\<lambda>a c. a * R + (case digitValue c of None \<Rightarrow> 0 | Some v \<Rightarrow> v)) 0 ds"

definition parseInt :: "string \<Rightarrow> int option" where
  "parseInt s =
     (let s1 = dropWhile isWhiteSpace s;
          neg = (case s1 of [] \<Rightarrow> False | c # _ \<Rightarrow> c = CHR ''-'');
          s2 = (case s1 of [] \<Rightarrow> s1
                | c # r \<Rightarrow> if c = CHR ''-'' \<or> c = CHR ''+'' then r else s1);
          hex = (take 2 s2 = ''0x'' \<or> take 2 s2 = ''0X'');
          R = (if hex then 16 else 10);
          s3 = (if hex then drop 2 s2 else s2);
          ds = takeWhile (isDigitOf R) s3
      in if ds = [] then None
         else Some ((if neg then - 1 else 1) * int (digitsValue R ds)))"

section \<open>The plan editor (components/PlanEditor.tsx)\<close>

text \<open>
  The editor keeps the working plan in the React state \<^verbatim>\<open>planData\<close>; every handler is a
  function from the previous plan to the next one. \<^verbatim>\<open>assignedDoctorIds\<close> is a memo of
  \<^verbatim>\<open>planData\<close>, so a handler sees the set computed from the plan it is applied to. The
  defensive run-time checks of the memo (\<^verbatim>\<open>Array.isArray\<close>, \<^verbatim>\<open>typeof docId\<close>) hold for
  every value of the declared types and have no branch in the model.
\<close>

definition assignedDoctorIds :: "plan_map \<Rightarrow> int set" where
  "assignedDoctorIds planData =
     set (concat (map (\<lambda>dayPlan. case dayPlan of None \<Rightarrow> [] | Some details \<Rightarrow> doctorIds details)
                      (map snd planData)))"

definition handleRegionChange :: "plan_map \<Rightarrow> int \<Rightarrow> string \<Rightarrow> plan_map" where
  "handleRegionChange prevPlan dayIndex regionIdStr =
     (case (if regionIdStr = ''none'' then None else parseInt regionIdStr) of
        None \<Rightarrow> AList.update dayIndex None prevPlan
      | Some r \<Rightarrow>
          (let ids = (case map_of prevPlan dayIndex of
                        Some (Some existing) \<Rightarrow>
                          if regionId existing = r then doctorIds existing else []
                      | _ \<Rightarrow> [])
           in AList.update dayIndex (Some \<lparr>regionId = r, doctorIds = ids\<rparr>) prevPlan))"

definition handleAddDoctor :: "Doctor list \<Rightarrow> plan_map \<Rightarrow> int \<Rightarrow> string \<Rightarrow> plan_map" where
  "handleAddDoctor allDoctors prevPlan dayIndex doctorIdStr =
     (case parseInt doctorIdStr of
        None \<Rightarrow> prevPlan
      | Some doctorId \<Rightarrow>
          if doctorId \<in> assignedDoctorIds prevPlan then prevPlan
          else (case map_of prevPlan dayIndex of
                  Some (Some current) \<Rightarrow>
                    if doctorId \<notin> set (doctorIds current)
                    then AList.update dayIndex
                           (Some (current\<lparr>doctorIds := doctorIds current @ [doctorId]\<rparr>)) prevPlan
                    else prevPlan
                | _ \<Rightarrow>
                    (case find (\<lambda>d. doctor_id d = doctorId) allDoctors of
                       None \<Rightarrow> prevPlan
                     | Some doctor \<Rightarrow>
                         AList.update dayIndex
                           (Some \<lparr>regionId = doctor_regionId doctor, doctorIds = [doctorId]\<rparr>)
                           prevPlan)))"

definition handleRemoveDoctor :: "plan_map \<Rightarrow> int \<Rightarrow> int \<Rightarrow> plan_map" where
  "handleRemoveDoctor prevPlan dayIndex doctorId =
     (case map_of prevPlan dayIndex of
        Some (Some current) \<Rightarrow>
          AList.update dayIndex
            (Some (current\<lparr>doctorIds := filter (\<lambda>i. i \<noteq> doctorId) (doctorIds current)\<rparr>))
            prevPlan
      | _ \<Rightarrow> prevPlan)"

text \<open>
  The region select of a day offers ``no plan'' and every region; the doctor select of a
  day offers \<^verbatim>\<open>availableDoctorsInRegion\<close>: the doctors of the day's region that are not
  assigned to any day.
\<close>

definition availableDoctorsInRegion :: "Doctor list \<Rightarrow> plan_map \<Rightarrow> int \<Rightarrow> Doctor list" where
  "availableDoctorsInRegion allDoctors planData dayIndex =
     filter (\<lambda>doc. (case map_of planData dayIndex of
                      Some (Some dayPlan) \<Rightarrow> doctor_regionId doc = regionId dayPlan
                    | _ \<Rightarrow> False)
                   \<and> doctor_id doc \<notin> assignedDoctorIds planData)
            allDoctors"

text \<open>A sequence of editing events, applied in the order invoked.\<close>

datatype mutation =
    RegionChange int string
  | AddDoctor int string
  | RemoveDoctor int int

fun apply_mutation :: "Doctor list \<Rightarrow> plan_map \<Rightarrow> mutation \<Rightarrow> plan_map" where
  "apply_mutation allDoctors p (RegionChange dayIndex regionIdStr) =
     handleRegionChange p dayIndex regionIdStr"
| "apply_mutation allDoctors p (AddDoctor dayIndex doctorIdStr) =
     handleAddDoctor allDoctors p dayIndex doctorIdStr"
| "apply_mutation allDoctors p (RemoveDoctor dayIndex doctorId) =
     handleRemoveDoctor p dayIndex doctorId"

fun run_mutations :: "Doctor list \<Rightarrow> plan_map \<Rightarrow> mutation list \<Rightarrow> plan_map" where
  "run_mutations allDoctors p [] = p"
| "run_mutations allDoctors p (m # ms) = run_mutations allDoctors (apply_mutation allDoctors p m) ms"

subsection \<open>The plan invariants\<close>

text \<open>
  The two invariants of a weekly plan, as the specification words them: a doctor id is
  listed under at most one day, and every doctor id listed under a day is the id of a
  doctor whose region is the region of that day.
\<close>

definition dayDoctorIds :: "plan_map \<Rightarrow> int \<Rightarrow> int list" where
  "dayDoctorIds p k = (case map_of p k of Some (Some details) \<Rightarrow> doctorIds details | _ \<Rightarrow> [])"

definition noDoctorOnTwoDays :: "plan_map \<Rightarrow> bool" where
  "noDoctorOnTwoDays p \<longleftrightarrow>
     (\<forall>k1 \<in> set (map fst p). \<forall>k2 \<in> set (map fst p).
        k1 \<noteq> k2 \<longrightarrow> set (dayDoctorIds p k1) \<inter> set (dayDoctorIds p k2) = {})"

definition doctorInRegion :: "Doctor list \<Rightarrow> int \<Rightarrow> int \<Rightarrow> bool" where
  "doctorInRegion allDoctors x r \<longleftrightarrow>
     (\<exists>doc \<in> set allDoctors. doctor_id doc = x \<and> doctor_regionId doc = r)"

definition doctorsInDayRegion :: "Doctor list \<Rightarrow> plan_map \<Rightarrow> bool" where
  "doctorsInDayRegion allDoctors p \<longleftrightarrow>
     (\<forall>k \<in> set (map fst p).
        case map_of p k of
          Some (Some details) \<Rightarrow>
            (\<forall>x \<in> set (doctorIds details). doctorInRegion allDoctors x (regionId details))
        | _ \<Rightarrow> True)"

definition planValid :: "Doctor list \<Rightarrow> plan_map \<Rightarrow> bool" where
  "planValid allDoctors p \<longleftrightarrow> noDoctorOnTwoDays p \<and> doctorsInDayRegion allDoctors p"

text \<open>
  The condition under which an event keeps the second invariant: a doctor that is not yet
  assigned and is added to a day that already has an assignment is a doctor of that day's
  region. Every option of the day's doctor select satisfies it.
\<close>

fun addInDayRegion :: "Doctor list \<Rightarrow> plan_map \<Rightarrow> mutation \<Rightarrow> bool" where
  "addInDayRegion allDoctors p (AddDoctor dayIndex doctorIdStr) =
     (case parseInt doctorIdStr of
        None \<Rightarrow> True
      | Some doctorId \<Rightarrow>
          doctorId \<in> assignedDoctorIds p \<or>
          (case map_of p dayIndex of
             Some (Some current) \<Rightarrow> doctorInRegion allDoctors doctorId (regionId current)
           | _ \<Rightarrow> True))"
| "addInDayRegion allDoctors p (RegionChange dayIndex regionIdStr) = True"
| "addInDayRegion allDoctors p (RemoveDoctor dayIndex doctorId) = True"

fun addsInDayRegion :: "Doctor list \<Rightarrow> plan_map \<Rightarrow> mutation list \<Rightarrow> bool" where
  "addsInDayRegion allDoctors p [] = True"
| "addsInDayRegion allDoctors p (m # ms) =
     (addInDayRegion allDoctors p m \<and> addsInDayRegion allDoctors (apply_mutation allDoctors p m) ms)"

section \<open>The remote store (services/api.ts)\<close>

text \<open>
  The table \<^verbatim>\<open>weekly_plans\<close> holds at most one row per \<^verbatim>\<open>rep_id\<close>. The store keeps a log
  of the requests it received. The argument \<open>fault\<close> is the \<^verbatim>\<open>error\<close> of the service's
  reply, when the service reports one; \<^verbatim>\<open>handleSupabaseError\<close> then throws, which is the
  \<open>Inl\<close> result. An \<^verbatim>\<open>update ... .single()\<close> that matches no row is an error of the
  service as well. \<^verbatim>\<open>reviewRepPlan\<close> and \<^verbatim>\<open>revokePlanApproval\<close> are the same update
  of the column \<^verbatim>\<open>status\<close> with a different value; \<open>setStatus\<close> is their common body.
\<close>

datatype api_call =
    GetRepPlan string
  | UpdateRepPlan string plan_map
  | ReviewRepPlan string PlanStatus
  | RevokePlanApproval string

record remote =
  weekly_plans :: "string \<rightharpoonup> WeeklyPlan"
  calls :: "api_call list"

definition handleSupabaseError :: "string \<Rightarrow> string \<Rightarrow> string" where
  "handleSupabaseError message context =
     (if message = [] then ''An unknown error occurred in '' @ context else message)"

definition noRowError :: string where
  "noRowError = ''JSON object requested, multiple (or no) rows returned''"

definition getRepPlan :: "string option \<Rightarrow> remote \<Rightarrow> string \<Rightarrow> remote \<times> (string + WeeklyPlan)" where
  "getRepPlan fault db repId =
     (let db1 = db\<lparr>calls := calls db @ [GetRepPlan repId]\<rparr> in
      case fault of
        Some message \<Rightarrow> (db1, Inl (handleSupabaseError message ''getRepPlan''))
      | None \<Rightarrow>
          (db1, Inr (case weekly_plans db repId of
                       None \<Rightarrow> \<lparr>plan = [], status = draft\<rparr>
                     | Some data \<Rightarrow> data)))"

definition updateRepPlan ::
  "string option \<Rightarrow> remote \<Rightarrow> string \<Rightarrow> plan_map \<Rightarrow> remote \<times> (string + WeeklyPlan)" where
  "updateRepPlan fault db repId planData =
     (let db1 = db\<lparr>calls := calls db @ [UpdateRepPlan repId planData]\<rparr> in
      case fault of
        Some message \<Rightarrow> (db1, Inl (handleSupabaseError message ''updateRepPlan''))
      | None \<Rightarrow>
          (let row = \<lparr>plan = planData, status = pending\<rparr>
           in (db1\<lparr>weekly_plans := (weekly_plans db)(repId \<mapsto> row)\<rparr>, Inr row)))"

definition setStatus ::
  "string \<Rightarrow> api_call \<Rightarrow> string option \<Rightarrow> remote \<Rightarrow> string \<Rightarrow> PlanStatus \<Rightarrow>
     remote \<times> (string + WeeklyPlan)" where
  "setStatus context call fault db repId newStatus =
     (let db1 = db\<lparr>calls := calls db @ [call]\<rparr> in
      case fault of
        Some message \<Rightarrow> (db1, Inl (handleSupabaseError message context))
      | None \<Rightarrow>
          (case weekly_plans db repId of
             None \<Rightarrow> (db1, Inl (handleSupabaseError noRowError context))
           | Some row \<Rightarrow>
               (let row' = row\<lparr>status := newStatus\<rparr>
                in (db1\<lparr>weekly_plans := (weekly_plans db)(repId \<mapsto> row')\<rparr>, Inr row'))))"

definition reviewRepPlan ::
  "string option \<Rightarrow> remote \<Rightarrow> string \<Rightarrow> PlanStatus \<Rightarrow> remote \<times> (string + WeeklyPlan)" where
  "reviewRepPlan fault db repId newStatus =
     setStatus ''reviewRepPlan'' (ReviewRepPlan repId newStatus) fault db repId newStatus"

definition revokePlanApproval ::
  "string option \<Rightarrow> remote \<Rightarrow> string \<Rightarrow> remote \<times> (string + WeeklyPlan)" where
  "revokePlanApproval fault db repId =
     setStatus ''revokePlanApproval'' (RevokePlanApproval repId) fault db repId draft"

subsection \<open>Submitting the plan (PlanEditor.handleSave)\<close>

definition WORK_WEEK_DAYS :: "int list" where
  "WORK_WEEK_DAYS = [6, 0, 1, 2, 3, 4, 5]"

definition cleanedPlan :: "plan_map \<Rightarrow> plan_map" where
  "cleanedPlan planData =
     fold (\<lambda>day cleaned.
             case map_of planData day of
               Some (Some dayPlan) \<Rightarrow> AList.update day (Some dayPlan) cleaned
             | _ \<Rightarrow> AList.update day None cleaned)
          WORK_WEEK_DAYS []"

text \<open>
  \<^verbatim>\<open>handleSave\<close> returns the store, the key of the message shown and the plan handed to
  \<^verbatim>\<open>onPlanSaved\<close> (none when the request failed).
\<close>

definition handleSave ::
  "string option \<Rightarrow> remote \<Rightarrow> User \<Rightarrow> plan_map \<Rightarrow> remote \<times> string \<times> WeeklyPlan option" where
  "handleSave fault db user planData =
     (case updateRepPlan fault db (user_id user) (cleanedPlan planData) of
        (db', Inr updatedPlan) \<Rightarrow> (db', ''plan_submitted_success'', Some updatedPlan)
      | (db', Inl e) \<Rightarrow> (db', ''plan_submitted_error'', None))"

section \<open>The manager dashboard (components/ManagerDashboard.tsx)\<close>

text \<open>
  The dashboard state the review handlers read and write: the signed-in user, the local
  copy \<^verbatim>\<open>allPlans\<close> of the plans and the message shown. The text of a message is kept as
  its translation key. The optimistic update \<^verbatim>\<open>{...prevPlans[repId], status}\<close> of a rep
  that has no local entry yields an object without the field \<^verbatim>\<open>plan\<close>; the model writes
  the empty plan there.
\<close>

datatype MessageType = success | error

record ReviewMessage =
  text_key :: string
  msg_type :: MessageType

record dashboard =
  user :: "User option"
  allPlans :: "(string \<times> WeeklyPlan) list"
  reviewMessage :: "ReviewMessage option"

definition optimisticStatus ::
  "string \<Rightarrow> PlanStatus \<Rightarrow> (string \<times> WeeklyPlan) list \<Rightarrow> (string \<times> WeeklyPlan) list" where
  "optimisticStatus repId s prevPlans =
     AList.update repId
       ((case map_of prevPlans repId of None \<Rightarrow> \<lparr>plan = [], status = s\<rparr>
         | Some prev \<Rightarrow> prev\<lparr>status := s\<rparr>))
       prevPlans"

definition handleReviewPlan ::
  "string option \<Rightarrow> dashboard \<times> remote \<Rightarrow> string \<Rightarrow> PlanStatus \<Rightarrow> dashboard \<times> remote" where
  "handleReviewPlan fault w repId newStatus =
     (case reviewRepPlan fault (snd w) repId newStatus of
        (db', Inr _) \<Rightarrow>
          ((fst w)\<lparr>allPlans := optimisticStatus repId newStatus (allPlans (fst w)),
                   reviewMessage :=
                     Some \<lparr>text_key = (if newStatus = approved then ''plan_approved_success''
                                        else ''plan_rejected_success''),
                           msg_type = success\<rparr>\<rparr>,
           db')
      | (db', Inl e) \<Rightarrow>
          ((fst w)\<lparr>reviewMessage := Some \<lparr>text_key = ''plan_review_error'', msg_type = error\<rparr>\<rparr>,
           db'))"

definition handleRevokeApproval ::
  "string option \<Rightarrow> dashboard \<times> remote \<Rightarrow> string \<Rightarrow> dashboard \<times> remote" where
  "handleRevokeApproval fault w repId =
     (if (case user (fst w) of None \<Rightarrow> True | Some u \<Rightarrow> role u \<noteq> Manager)
      then ((fst w)\<lparr>reviewMessage :=
                      Some \<lparr>text_key = ''error_permission_denied'', msg_type = error\<rparr>\<rparr>,
            snd w)
      else (case revokePlanApproval fault (snd w) repId of
              (db', Inr _) \<Rightarrow>
                ((fst w)\<lparr>allPlans := optimisticStatus repId draft (allPlans (fst w)),
                         reviewMessage :=
                           Some \<lparr>text_key = ''plan_revoked_success'', msg_type = success\<rparr>\<rparr>,
                 db')
            | (db', Inl e) \<Rightarrow>
                ((fst w)\<lparr>reviewMessage :=
                           Some \<lparr>text_key = ''plan_revoke_error'', msg_type = error\<rparr>\<rparr>,
                 db')))"

text \<open>
  What the pages render. \<^verbatim>\<open>Dashboard\<close> (App.tsx) shows the manager dashboard to managers
  and supervisors and the representative's dashboard to everybody else. The approve and
  reject buttons exist for the entries of \<^verbatim>\<open>pendingPlans\<close>; the revoke button of a rep
  exists when the user is a manager and the rep's plan is approved.
\<close>

definition showsManagerDashboard :: "User \<Rightarrow> bool" where
  "showsManagerDashboard u \<longleftrightarrow> role u = Manager \<or> role u = Supervisor"

definition pendingPlans :: "(string \<times> WeeklyPlan) list \<Rightarrow> (string \<times> WeeklyPlan) list" where
  "pendingPlans plans = filter (\<lambda>entry. status (snd entry) = pending) plans"

definition reviewButtons :: "dashboard \<Rightarrow> string \<Rightarrow> bool" where
  "reviewButtons st repId \<longleftrightarrow>
     (case user st of None \<Rightarrow> False | Some u \<Rightarrow> showsManagerDashboard u)
     \<and> repId \<in> set (map fst (pendingPlans (allPlans st)))"

definition revokeButton :: "dashboard \<Rightarrow> string \<Rightarrow> bool" where
  "revokeButton st repId \<longleftrightarrow>
     (case user st of None \<Rightarrow> False | Some u \<Rightarrow> showsManagerDashboard u \<and> role u = Manager)
     \<and> (case map_of (allPlans st) repId of None \<Rightarrow> False | Some p \<Rightarrow> status p = approved)"

subsection \<open>The transition table of the specification\<close>

text \<open>
  The lifecycle table of the specification, one line per row: who may trigger which
  transition from which status.
\<close>

datatype trigger = Submit | Approve | Reject | Revoke

fun listed :: "PlanStatus \<Rightarrow> UserRole \<Rightarrow> trigger \<Rightarrow> bool" where
  "listed s a Submit = ((s = draft \<or> s = rejected) \<and> a = Rep)"
| "listed s a Approve = (s = pending \<and> (a = Manager \<or> a = Supervisor))"
| "listed s a Reject = (s = pending \<and> (a = Manager \<or> a = Supervisor))"
| "listed s a Revoke = (s = approved \<and> a = Manager)"

section \<open>The representative's dashboard (RepDashboard)\<close>

text \<open>
  The planning window reads a \<^verbatim>\<open>Date\<close> through \<^verbatim>\<open>getDay\<close>, \<^verbatim>\<open>getDate\<close> and
  \<^verbatim>\<open>setDate\<close> only. Here a date is the number of its local calendar day (day 0 is
  Thursday 1 January 1970) and the time within that day; \<^verbatim>\<open>d.setDate(d.getDate() + k)\<close>
  moves \<open>k\<close> calendar days and keeps the time of day. Weekdays are numbered as
  \<^verbatim>\<open>getDay\<close> numbers them: 0 is Sunday, 4 Thursday, 5 Friday and 6 Saturday.
\<close>

record DayDate =
  dayNumber :: int
  timeInDay :: nat

definition weekdayOf :: "int \<Rightarrow> int" where
  "weekdayOf n = (n + 4) mod 7"

definition getDay :: "DayDate \<Rightarrow> int" where
  "getDay d = weekdayOf (dayNumber d)"

definition addDays :: "DayDate \<Rightarrow> int \<Rightarrow> DayDate" where
  "addDays d k = d\<lparr>dayNumber := dayNumber d + k\<rparr>"

definition isPlanningTime :: "DayDate \<Rightarrow> bool" where
  "isPlanningTime today \<longleftrightarrow> (let dayOfWeek = getDay today in dayOfWeek = 4 \<or> dayOfWeek = 5)"

definition planStartDate :: "DayDate \<Rightarrow> DayDate" where
  "planStartDate d =
     (let currentDay = getDay d in
      if isPlanningTime d
      then (let daysUntilNextSaturday = (6 - currentDay + 7) mod 7
            in addDays d (if daysUntilNextSaturday = 0 then 7 else daysUntilNextSaturday))
      else (let daysSinceSaturday = (currentDay + 1) mod 7
            in addDays d (- daysSinceSaturday)))"

datatype RepView = view_dashboard | view_search | view_weekly | view_plan

definition canEdit :: "WeeklyPlan option \<Rightarrow> DayDate \<Rightarrow> bool" where
  "canEdit p today \<longleftrightarrow>
     (case p of None \<Rightarrow> True | Some wp \<Rightarrow> status wp \<noteq> approved) \<or> isPlanningTime today"

definition handleWeeklyPlanClick :: "WeeklyPlan option \<Rightarrow> DayDate \<Rightarrow> RepView" where
  "handleWeeklyPlanClick p today = (if canEdit p today then view_plan else view_weekly)"

section \<open>Monthly visit frequency (RepDashboard and ManagerDashboard)\<close>

text \<open>
  The frequency computation reads a \<^verbatim>\<open>Date\<close> through \<^verbatim>\<open>getFullYear\<close>, \<^verbatim>\<open>getMonth\<close>,
  the constructor \<^verbatim>\<open>new Date(year, month, 1)\<close> and the comparisons \<^verbatim>\<open>>=\<close> and \<^verbatim>\<open><=\<close>
  only. Here a date is its local calendar reading (year, month, day of the month, time
  within the day), compared in the order of time. \<^verbatim>\<open>new Date(visit.date)\<close> parses a
  string: the parser is a parameter \<open>parseDate\<close> of the model, with \<open>None\<close> for an
  invalid date, which fails every comparison.
\<close>

record CalDate =
  fullYear :: int
  monthIndex :: nat
  dayOfMonth :: nat
  timeOfDay :: nat

definition dateLe :: "CalDate \<Rightarrow> CalDate \<Rightarrow> bool" where
  "dateLe a b \<longleftrightarrow>
     fullYear a < fullYear b \<or>
     (fullYear a = fullYear b \<and>
       (monthIndex a < monthIndex b \<or>
        (monthIndex a = monthIndex b \<and>
          (dayOfMonth a < dayOfMonth b \<or>
           (dayOfMonth a = dayOfMonth b \<and> timeOfDay a \<le> timeOfDay b)))))"

definition startOfMonth :: "CalDate \<Rightarrow> CalDate" where
  "startOfMonth today =
     \<lparr>fullYear = fullYear today, monthIndex = monthIndex today, dayOfMonth = 1, timeOfDay = 0\<rparr>"

datatype ReportType = DOCTOR_VISIT | PHARMACY_VISIT

record VisitReport =
  report_id :: string
  report_type :: ReportType
  repName :: string
  regionName :: string
  targetName :: string
  report_notes :: string
  report_date :: string

record Frequency =
  freq1 :: nat
  freq2 :: nat
  freq3 :: nat

text \<open>
  \<^verbatim>\<open>visitCounts\<close> is a plain object \<^verbatim>\<open>{}\<close> used as a dictionary from target names to
  counts. Its own properties are an association list here. A plain object inherits the
  members of \<^verbatim>\<open>Object.prototype\<close>, and \<^verbatim>\<open>visitCounts[key]\<close> reads an inherited member
  when the object has no own property \<open>key\<close>: eleven functions and the accessor
  \<^verbatim>\<open>__proto__\<close>, whose getter returns \<^verbatim>\<open>Object.prototype\<close>. All of them are truthy, so
  \<^verbatim>\<open>(visitCounts[key] || 0) + 1\<close> is then the member converted to a string, followed by
  \<^verbatim>\<open>1\<close>. The text of a native function is the engine's (\<open>inheritedText\<close> gives V8's);
  all that matters below is that the value stored is a text and not a number. Writing
  \<^verbatim>\<open>visitCounts[key] = v\<close> makes an own property, except for \<^verbatim>\<open>__proto__\<close>, whose setter
  ignores a value that is not an object.
\<close>

datatype jsvalue = JSNumber nat | JSText string

definition objectPrototypeFunctions :: "string list" where
  "objectPrototypeFunctions =
     [''constructor'', ''__defineGetter__'', ''__defineSetter__'', ''hasOwnProperty'',
      ''__lookupGetter__'', ''__lookupSetter__'', ''isPrototypeOf'', ''propertyIsEnumerable'',
      ''toString'', ''valueOf'', ''toLocaleString'']"

definition objectPrototypeMembers :: "string list" where
  "objectPrototypeMembers = ''__proto__'' # objectPrototypeFunctions"

definition inheritedText :: "string \<Rightarrow> string option" where
  "inheritedText key =
     (if key = ''__proto__'' then Some ''[object Object]''
      else if key \<in> set objectPrototypeFunctions
      then Some (''function '' @ (if key = ''constructor'' then ''Object'' else key)
                 @ ''() { [native code] }'')
      else None)"

text \<open>The value of \<^verbatim>\<open>(visitCounts[key] || 0) + 1\<close>; the empty text is falsy.\<close>

definition nextCount :: "(string \<times> jsvalue) list \<Rightarrow> string \<Rightarrow> jsvalue" where
  "nextCount visitCounts key =
     (case map_of visitCounts key of
        Some (JSNumber c) \<Rightarrow> JSNumber (c + 1)
      | Some (JSText s) \<Rightarrow> if s = [] then JSNumber 1 else JSText (s @ ''1'')
      | None \<Rightarrow>
          (case inheritedText key of
             Some s \<Rightarrow> JSText (s @ ''1'')
           | None \<Rightarrow> JSNumber 1))"

definition countsThisMonth :: "(string \<Rightarrow> CalDate option) \<Rightarrow> CalDate \<Rightarrow> VisitReport \<Rightarrow> bool" where
  "countsThisMonth parseDate today visit \<longleftrightarrow>
     (case parseDate (report_date visit) of
        None \<Rightarrow> False
      | Some visitDate \<Rightarrow> dateLe (startOfMonth today) visitDate \<and> dateLe visitDate today)
     \<and> report_type visit = DOCTOR_VISIT"

definition countVisit :: "string \<Rightarrow> (string \<times> jsvalue) list \<Rightarrow> (string \<times> jsvalue) list" where
  "countVisit key visitCounts =
     (let v = nextCount visitCounts key
      in if key = ''__proto__'' then visitCounts else AList.update key v visitCounts)"

definition monthlyVisitCounts ::
  "(string \<Rightarrow> CalDate option) \<Rightarrow> CalDate \<Rightarrow> VisitReport list \<Rightarrow> (string \<times> jsvalue) list" where
  "monthlyVisitCounts parseDate today visits =
     fold (\<lambda>visit visitCounts.
             if countsThisMonth parseDate today visit
             then countVisit (targetName visit) visitCounts
             else visitCounts)
          visits []"

text \<open>
  A count that is a text is not \<^verbatim>\<open>=== 1\<close> nor \<^verbatim>\<open>=== 2\<close>, and \<^verbatim>\<open>count >= 3\<close> converts
  it to a number: the texts stored begin with \<^verbatim>\<open>function\<close> or \<^verbatim>\<open>[object\<close>, which convert
  to \<^verbatim>\<open>NaN\<close>, so the comparison fails.
\<close>

definition bucket :: "jsvalue \<Rightarrow> Frequency \<Rightarrow> Frequency" where
  "bucket count f =
     (case count of
        JSNumber c \<Rightarrow>
          if c = 1 then f\<lparr>freq1 := freq1 f + 1\<rparr>
          else if c = 2 then f\<lparr>freq2 := freq2 f + 1\<rparr>
          else if c \<ge> 3 then f\<lparr>freq3 := freq3 f + 1\<rparr>
          else f
      | JSText s \<Rightarrow> f)"

definition frequencyOfCounts :: "(string \<times> jsvalue) list \<Rightarrow> Frequency" where
  "frequencyOfCounts visitCounts =
     fold bucket (map snd visitCounts) \<lparr>freq1 = 0, freq2 = 0, freq3 = 0\<rparr>"

definition rep_visitFrequency ::
  "(string \<Rightarrow> CalDate option) \<Rightarrow> CalDate \<Rightarrow> VisitReport list \<Rightarrow> Frequency" where
  "rep_visitFrequency parseDate today recentVisits =
     frequencyOfCounts (monthlyVisitCounts parseDate today recentVisits)"

definition manager_visitFrequency ::
  "(string \<Rightarrow> CalDate option) \<Rightarrow> CalDate \<Rightarrow> VisitReport list \<Rightarrow> string \<Rightarrow> Frequency" where
  "manager_visitFrequency parseDate today allReports selectedRep =
     (let relevantReports =
            (if selectedRep = ''all'' then allReports
             else filter (\<lambda>r. repName r = selectedRep) allReports)
      in frequencyOfCounts (monthlyVisitCounts parseDate today relevantReports))"

subsection \<open>The frequency as the specification words it\<close>

text \<open>
  The number of times a target name occurs among the doctor visits of the month to date,
  and the number of target names whose number of visits satisfies a condition.
\<close>

definition timesVisited ::
  "(string \<Rightarrow> CalDate option) \<Rightarrow> CalDate \<Rightarrow> VisitReport list \<Rightarrow> string \<Rightarrow> nat" where
  "timesVisited parseDate today visits name =
     length (filter (\<lambda>v. countsThisMonth parseDate today v \<and> targetName v = name) visits)"

definition targetsVisited ::
  "(string \<Rightarrow> CalDate option) \<Rightarrow> CalDate \<Rightarrow> VisitReport list \<Rightarrow> (nat \<Rightarrow> bool) \<Rightarrow> nat" where
  "targetsVisited parseDate today visits P =
     card {name \<in> set (map targetName visits). P (timesVisited parseDate today visits name)}"

text \<open>
  The same number, over the target names that are not members of \<^verbatim>\<open>Object.prototype\<close>.
\<close>

definition ownTargetsVisited ::
  "(string \<Rightarrow> CalDate option) \<Rightarrow> CalDate \<Rightarrow> VisitReport list \<Rightarrow> (nat \<Rightarrow> bool) \<Rightarrow> nat" where
  "ownTargetsVisited parseDate today visits P =
     card {name \<in> set (map targetName visits).
             name \<notin> set objectPrototypeMembers \<and> P (timesVisited parseDate today visits name)}"

subsection \<open>Notions used in the proofs\<close>

text \<open>The entry of a name that is not a member of the prototype is its number of visits.\<close>

definition countOf :: "(string \<times> jsvalue) list \<Rightarrow> string \<Rightarrow> nat" where
  "countOf vc n = (case map_of vc n of Some (JSNumber c) \<Rightarrow> c | _ \<Rightarrow> 0)"

text \<open>The entry of a member of the prototype, when there is one, is a text.\<close>

definition textOrMissing :: "(string \<times> jsvalue) list \<Rightarrow> string \<Rightarrow> bool" where
  "textOrMissing vc n \<longleftrightarrow>
     (case map_of vc n of None \<Rightarrow> True | Some (JSNumber c) \<Rightarrow> False | Some (JSText s) \<Rightarrow> s \<noteq> [])"

text \<open>Counting the entries that are numbers with a given property.\<close>

definition isCount :: "(nat \<Rightarrow> bool) \<Rightarrow> jsvalue \<Rightarrow> bool" where
  "isCount P v = (case v of JSNumber c \<Rightarrow> P c | JSText s \<Rightarrow> False)"

section \<open>Properties of the plan editor\<close>

lemma parseInt_none: "parseInt ''none'' = None"
  by code_simp

lemma filter_absent: "x \<notin> set xs \<Longrightarrow> filter (\<lambda>i. i \<noteq> x) xs = xs"
  by (induction xs) auto

lemma handleRemoveDoctor_absent:
  "\<not> (\<exists>cur. map_of p d = Some (Some cur) \<and> x \<in> set (doctorIds cur)) \<Longrightarrow>
     handleRemoveDoctor p d x = p"
  by (auto simp: handleRemoveDoctor_def filter_absent intro!: update_triv split: option.splits)

lemma day_doctors_assigned:
  "map_of p k = Some (Some a) \<Longrightarrow> x \<in> set (doctorIds a) \<Longrightarrow> x \<in> assignedDoctorIds p"
  by (force simp: assignedDoctorIds_def dest!: map_of_SomeD)

text \<open>
  C7. Let day \<open>D\<close> have region \<open>R1\<close> and the doctor list \<open>ds\<close>. Choosing a region
  \<open>R2 \<noteq> R1\<close> leaves day \<open>D\<close> with region \<open>R2\<close> and no doctor; choosing \<open>R1\<close> again
  leaves the region and the doctor list as they are; choosing ``none'' sets the day to the
  explicit null marker.
\<close>

theorem region_change_clears_assignments:
  assumes "map_of p D = Some (Some \<lparr>regionId = R1, doctorIds = ds\<rparr>)"
  shows "(\<forall>s R2. parseInt s = Some R2 \<and> R2 \<noteq> R1 \<longrightarrow>
            map_of (handleRegionChange p D s) D = Some (Some \<lparr>regionId = R2, doctorIds = []\<rparr>))
       \<and> (\<forall>s. parseInt s = Some R1 \<longrightarrow>
            map_of (handleRegionChange p D s) D = Some (Some \<lparr>regionId = R1, doctorIds = ds\<rparr>))
       \<and> map_of (handleRegionChange p D ''none'') D = Some None"
proof -
  have ne: "s \<noteq> ''none''" if "parseInt s = Some r" for s r
    using that parseInt_none by auto
  show ?thesis
    using assms by (auto simp: handleRegionChange_def update_conv' dest: ne)
qed

theorem region_change_clears_assignments_witness:
  "map_of [(6, Some \<lparr>regionId = 1, doctorIds = [10, 11]\<rparr>)] 6
     = Some (Some \<lparr>regionId = 1, doctorIds = [10, 11]\<rparr>)
   \<and> parseInt ''2'' = Some 2 \<and> (2::int) \<noteq> 1
   \<and> map_of (handleRegionChange [(6, Some \<lparr>regionId = 1, doctorIds = [10, 11]\<rparr>)] 6 ''2'') 6
       = Some (Some \<lparr>regionId = 2, doctorIds = []\<rparr>)
   \<and> parseInt ''1'' = Some 1
   \<and> map_of (handleRegionChange [(6, Some \<lparr>regionId = 1, doctorIds = [10, 11]\<rparr>)] 6 ''1'') 6
       = Some (Some \<lparr>regionId = 1, doctorIds = [10, 11]\<rparr>)
   \<and> map_of (handleRegionChange [(6, Some \<lparr>regionId = 1, doctorIds = [10, 11]\<rparr>)] 6 ''none'') 6
       = Some None"
proof -
  have h: "map_of [(6::int, Some \<lparr>regionId = 1, doctorIds = [10, 11]\<rparr>)] 6
             = Some (Some \<lparr>regionId = 1, doctorIds = [10, 11]\<rparr>)"
    by simp
  have p2: "parseInt ''2'' = Some 2" by code_simp
  have p1: "parseInt ''1'' = Some 1" by code_simp
  note t = region_change_clears_assignments [OF h]
  from t p2 have a: "map_of (handleRegionChange [(6, Some \<lparr>regionId = 1, doctorIds = [10, 11]\<rparr>)] 6 ''2'') 6
       = Some (Some \<lparr>regionId = 2, doctorIds = []\<rparr>)"
    by simp
  from t p1 have b: "map_of (handleRegionChange [(6, Some \<lparr>regionId = 1, doctorIds = [10, 11]\<rparr>)] 6 ''1'') 6
       = Some (Some \<lparr>regionId = 1, doctorIds = [10, 11]\<rparr>)"
    by blast
  from t have c: "map_of (handleRegionChange [(6, Some \<lparr>regionId = 1, doctorIds = [10, 11]\<rparr>)] 6 ''none'') 6
       = Some None"
    by blast
  from a b c p1 p2 show ?thesis
    by simp
qed

text \<open>
  C10. \<^verbatim>\<open>handleRemoveDoctor(day, X)\<close> on a day with an assignment keeps the day's region and
  keeps, in their order, the doctor ids of the day other than \<open>X\<close>; when \<open>X\<close> is not
  listed under the day (or the day has no assignment) the plan is returned as it was; the
  assignment of every other day is what it was.
\<close>

theorem handleRemoveDoctor_frame:
  "(\<forall>cur. map_of p d = Some (Some cur) \<longrightarrow>
      map_of (handleRemoveDoctor p d x) d =
        Some (Some \<lparr>regionId = regionId cur, doctorIds = filter (\<lambda>i. i \<noteq> x) (doctorIds cur)\<rparr>))
   \<and> (\<not> (\<exists>cur. map_of p d = Some (Some cur) \<and> x \<in> set (doctorIds cur)) \<longrightarrow>
        handleRemoveDoctor p d x = p)
   \<and> (\<forall>d'. d' \<noteq> d \<longrightarrow> map_of (handleRemoveDoctor p d x) d' = map_of p d')"
proof (intro conjI allI impI)
  fix cur assume "map_of p d = Some (Some cur)"
  then show "map_of (handleRemoveDoctor p d x) d =
      Some (Some \<lparr>regionId = regionId cur, doctorIds = filter (\<lambda>i. i \<noteq> x) (doctorIds cur)\<rparr>)"
    by (simp add: handleRemoveDoctor_def update_conv')
next
  assume "\<not> (\<exists>cur. map_of p d = Some (Some cur) \<and> x \<in> set (doctorIds cur))"
  then show "handleRemoveDoctor p d x = p"
    by (rule handleRemoveDoctor_absent)
next
  fix d' assume "d' \<noteq> d"
  then show "map_of (handleRemoveDoctor p d x) d' = map_of p d'"
    by (simp add: handleRemoveDoctor_def update_conv' split: option.splits)
qed

theorem handleRemoveDoctor_frame_witness:
  "map_of (handleRemoveDoctor [(6, Some \<lparr>regionId = 1, doctorIds = [10, 11, 12]\<rparr>), (0, None)] 6 11) 6
     = Some (Some \<lparr>regionId = 1, doctorIds = [10, 12]\<rparr>)
   \<and> handleRemoveDoctor [(6, Some \<lparr>regionId = 1, doctorIds = [10, 11, 12]\<rparr>), (0, None)] 0 11
     = [(6, Some \<lparr>regionId = 1, doctorIds = [10, 11, 12]\<rparr>), (0, None)]
   \<and> map_of (handleRemoveDoctor [(6, Some \<lparr>regionId = 1, doctorIds = [10, 11, 12]\<rparr>), (0, None)] 6 11) 0
     = Some None"
  using handleRemoveDoctor_frame
          [of "[(6, Some \<lparr>regionId = 1, doctorIds = [10, 11, 12]\<rparr>), (0, None)]" 6 11]
        handleRemoveDoctor_frame
          [of "[(6, Some \<lparr>regionId = 1, doctorIds = [10, 11, 12]\<rparr>), (0, None)]" 0 11]
  by simp

text \<open>
  C6. When doctor \<open>X\<close> is listed under a day \<open>dayA\<close> of the plan, \<^verbatim>\<open>handleAddDoctor\<close> of
  \<open>X\<close> on any day \<open>dayB\<close> returns the plan as it was, so the doctor list of \<open>dayB\<close> is
  what it was. In particular this is so after a \<^verbatim>\<open>handleAddDoctor(dayA, X)\<close> that changed
  the plan.
\<close>

theorem add_assigned_doctor_noop:
  "(\<forall>a. map_of p dayA = Some (Some a) \<and> x \<in> set (doctorIds a) \<and> parseInt s = Some x
        \<and> dayB \<noteq> dayA \<longrightarrow>
      handleAddDoctor allDoctors p dayB s = p
      \<and> map_of (handleAddDoctor allDoctors p dayB s) dayB = map_of p dayB)
   \<and> (handleAddDoctor allDoctors p dayA s \<noteq> p \<and> dayB \<noteq> dayA \<longrightarrow>
        handleAddDoctor allDoctors (handleAddDoctor allDoctors p dayA s) dayB s
          = handleAddDoctor allDoctors p dayA s)"
proof (intro conjI allI impI)
  fix a
  assume h: "map_of p dayA = Some (Some a) \<and> x \<in> set (doctorIds a) \<and> parseInt s = Some x
        \<and> dayB \<noteq> dayA"
  then have "x \<in> assignedDoctorIds p"
    using day_doctors_assigned by blast
  with h show "handleAddDoctor allDoctors p dayB s = p"
    by (simp add: handleAddDoctor_def)
  then show "map_of (handleAddDoctor allDoctors p dayB s) dayB = map_of p dayB"
    by simp
next
  let ?q = "handleAddDoctor allDoctors p dayA s"
  assume h: "?q \<noteq> p \<and> dayB \<noteq> dayA"
  then obtain y where y: "parseInt s = Some y"
    by (cases "parseInt s") (auto simp: handleAddDoctor_def)
  from h y have "\<exists>a. map_of ?q dayA = Some (Some a) \<and> y \<in> set (doctorIds a)"
    by (auto simp: handleAddDoctor_def update_conv' split: option.splits if_splits)
  then have "y \<in> assignedDoctorIds ?q"
    using day_doctors_assigned by blast
  with y show "handleAddDoctor allDoctors ?q dayB s = ?q"
    by (simp add: handleAddDoctor_def)
qed

theorem add_assigned_doctor_noop_witness:
  "map_of [(6, Some \<lparr>regionId = 1, doctorIds = [10]\<rparr>), (0, Some \<lparr>regionId = 1, doctorIds = []\<rparr>)] 6
     = Some (Some \<lparr>regionId = 1, doctorIds = [10]\<rparr>)
   \<and> (10::int) \<in> set (doctorIds \<lparr>regionId = 1, doctorIds = [10]\<rparr>)
   \<and> parseInt ''10'' = Some 10 \<and> (0::int) \<noteq> 6
   \<and> handleAddDoctor []
        [(6, Some \<lparr>regionId = 1, doctorIds = [10]\<rparr>), (0, Some \<lparr>regionId = 1, doctorIds = []\<rparr>)] 0 ''10''
      = [(6, Some \<lparr>regionId = 1, doctorIds = [10]\<rparr>), (0, Some \<lparr>regionId = 1, doctorIds = []\<rparr>)]
   \<and> handleAddDoctor [] [(6, Some \<lparr>regionId = 1, doctorIds = []\<rparr>)] 6 ''10''
        \<noteq> [(6, Some \<lparr>regionId = 1, doctorIds = []\<rparr>)]
   \<and> handleAddDoctor []
        (handleAddDoctor [] [(6, Some \<lparr>regionId = 1, doctorIds = []\<rparr>)] 6 ''10'') 0 ''10''
      = handleAddDoctor [] [(6, Some \<lparr>regionId = 1, doctorIds = []\<rparr>)] 6 ''10''"
proof -
  have p: "parseInt ''10'' = Some 10" by code_simp
  have ch: "handleAddDoctor [] [(6, Some \<lparr>regionId = 1, doctorIds = []\<rparr>)] 6 ''10''
        \<noteq> [(6, Some \<lparr>regionId = 1, doctorIds = []\<rparr>)]"
    by (simp add: handleAddDoctor_def p assignedDoctorIds_def)
  from add_assigned_doctor_noop
         [of "[(6, Some \<lparr>regionId = 1, doctorIds = [10]\<rparr>), (0, Some \<lparr>regionId = 1, doctorIds = []\<rparr>)]"
             6 10 "''10''" 0 "[]"]
       add_assigned_doctor_noop
         [of "[(6, Some \<lparr>regionId = 1, doctorIds = []\<rparr>)]" 6 x "''10''" 0 "[]" for x]
       p ch
  show ?thesis by simp
qed

subsection \<open>The invariants along a sequence of edits\<close>

lemma dayDoctorIds_missing: "k \<notin> fst ` set p \<Longrightarrow> dayDoctorIds p k = []"
  by (simp add: dayDoctorIds_def map_of_eq_None_iff [THEN iffD2])

lemma noDoctorOnTwoDays_iff:
  "noDoctorOnTwoDays p \<longleftrightarrow>
     (\<forall>k1 k2. k1 \<noteq> k2 \<longrightarrow> set (dayDoctorIds p k1) \<inter> set (dayDoctorIds p k2) = {})"
proof
  assume h: "noDoctorOnTwoDays p"
  show "\<forall>k1 k2. k1 \<noteq> k2 \<longrightarrow> set (dayDoctorIds p k1) \<inter> set (dayDoctorIds p k2) = {}"
  proof (intro allI impI)
    fix k1 k2 :: int assume ne: "k1 \<noteq> k2"
    show "set (dayDoctorIds p k1) \<inter> set (dayDoctorIds p k2) = {}"
    proof (cases "k1 \<in> fst ` set p \<and> k2 \<in> fst ` set p")
      case True
      with h ne show ?thesis by (fastforce simp: noDoctorOnTwoDays_def)
    next
      case False
      then show ?thesis by (auto simp: dayDoctorIds_missing)
    qed
  qed
next
  assume "\<forall>k1 k2. k1 \<noteq> k2 \<longrightarrow> set (dayDoctorIds p k1) \<inter> set (dayDoctorIds p k2) = {}"
  then show "noDoctorOnTwoDays p" by (simp add: noDoctorOnTwoDays_def)
qed

lemma doctorsInDayRegion_iff:
  "doctorsInDayRegion allDoctors p \<longleftrightarrow>
     (\<forall>k details. map_of p k = Some (Some details) \<longrightarrow>
        (\<forall>x \<in> set (doctorIds details). doctorInRegion allDoctors x (regionId details)))"
proof
  assume h: "doctorsInDayRegion allDoctors p"
  show "\<forall>k details. map_of p k = Some (Some details) \<longrightarrow>
        (\<forall>x \<in> set (doctorIds details). doctorInRegion allDoctors x (regionId details))"
  proof (intro allI impI)
    fix k details assume m: "map_of p k = Some (Some details)"
    then have "k \<in> set (map fst p)"
      by (metis domI dom_map_of_conv_image_fst set_map)
    with h m show "\<forall>x \<in> set (doctorIds details). doctorInRegion allDoctors x (regionId details)"
      by (fastforce simp: doctorsInDayRegion_def)
  qed
next
  assume "\<forall>k details. map_of p k = Some (Some details) \<longrightarrow>
        (\<forall>x \<in> set (doctorIds details). doctorInRegion allDoctors x (regionId details))"
  then show "doctorsInDayRegion allDoctors p"
    by (auto simp: doctorsInDayRegion_def split: option.splits)
qed

lemma not_assigned_not_listed:
  "x \<notin> assignedDoctorIds p \<Longrightarrow> x \<notin> set (dayDoctorIds p k)"
  by (auto simp: dayDoctorIds_def split: option.splits
           dest: day_doctors_assigned day_doctors_assigned [OF sym])

lemma dayDoctorIds_handleRegionChange:
  "set (dayDoctorIds (handleRegionChange p d s) k) \<subseteq> set (dayDoctorIds p k)"
  by (auto simp: dayDoctorIds_def handleRegionChange_def update_conv' Let_def
           split: option.splits if_splits)

lemma dayDoctorIds_handleRemoveDoctor:
  "set (dayDoctorIds (handleRemoveDoctor p d x) k) \<subseteq> set (dayDoctorIds p k)"
proof (cases "map_of p d")
  case None
  then show ?thesis by (simp add: handleRemoveDoctor_def)
next
  case (Some v)
  show ?thesis
  proof (cases v)
    case None
    with Some show ?thesis by (simp add: handleRemoveDoctor_def)
  next
    case (Some cur)
    with \<open>map_of p d = Some v\<close> show ?thesis
      by (cases "k = d") (auto simp add: handleRemoveDoctor_def dayDoctorIds_def update_conv')
  qed
qed

lemma dayDoctorIds_handleAddDoctor:
  "handleAddDoctor allDoctors p d s = p
   \<or> (\<exists>x. x \<notin> assignedDoctorIds p
          \<and> (\<forall>k. set (dayDoctorIds (handleAddDoctor allDoctors p d s) k)
                  = (if k = d then insert x (set (dayDoctorIds p k)) else set (dayDoctorIds p k))))"
proof (cases "parseInt s")
  case None
  then show ?thesis by (simp add: handleAddDoctor_def)
next
  case (Some x)
  show ?thesis
  proof (cases "x \<in> assignedDoctorIds p")
    case True
    with Some show ?thesis by (simp add: handleAddDoctor_def)
  next
    case False
    have "\<forall>k. set (dayDoctorIds (handleAddDoctor allDoctors p d s) k)
                  = (if k = d then insert x (set (dayDoctorIds p k)) else set (dayDoctorIds p k))"
      if "handleAddDoctor allDoctors p d s \<noteq> p"
      using that Some False
      by (auto simp: handleAddDoctor_def dayDoctorIds_def update_conv' split: option.splits)
    with False show ?thesis by blast
  qed
qed

lemma noDoctorOnTwoDays_subset:
  "noDoctorOnTwoDays p \<Longrightarrow> (\<And>k. set (dayDoctorIds q k) \<subseteq> set (dayDoctorIds p k)) \<Longrightarrow>
     noDoctorOnTwoDays q"
  unfolding noDoctorOnTwoDays_iff by blast

lemma noDoctorOnTwoDays_step:
  assumes "noDoctorOnTwoDays p"
  shows "noDoctorOnTwoDays (apply_mutation allDoctors p m)"
proof (cases m)
  case (RegionChange d s)
  have "noDoctorOnTwoDays (handleRegionChange p d s)"
    using assms by (rule noDoctorOnTwoDays_subset) (rule dayDoctorIds_handleRegionChange)
  with RegionChange show ?thesis by simp
next
  case (RemoveDoctor d x)
  have "noDoctorOnTwoDays (handleRemoveDoctor p d x)"
    using assms by (rule noDoctorOnTwoDays_subset) (rule dayDoctorIds_handleRemoveDoctor)
  with RemoveDoctor show ?thesis by simp
next
  case (AddDoctor d s)
  from dayDoctorIds_handleAddDoctor [of allDoctors p d s] show ?thesis
  proof
    assume "handleAddDoctor allDoctors p d s = p"
    with assms AddDoctor show ?thesis by simp
  next
    assume "\<exists>x. x \<notin> assignedDoctorIds p
          \<and> (\<forall>k. set (dayDoctorIds (handleAddDoctor allDoctors p d s) k)
                  = (if k = d then insert x (set (dayDoctorIds p k)) else set (dayDoctorIds p k)))"
    then obtain x where x: "x \<notin> assignedDoctorIds p"
      and eq: "\<And>k. set (dayDoctorIds (handleAddDoctor allDoctors p d s) k)
                  = (if k = d then insert x (set (dayDoctorIds p k)) else set (dayDoctorIds p k))"
      by blast
    have nx: "x \<notin> set (dayDoctorIds p k)" for k
      using x by (rule not_assigned_not_listed)
    from assms have "\<forall>k1 k2. k1 \<noteq> k2 \<longrightarrow> set (dayDoctorIds p k1) \<inter> set (dayDoctorIds p k2) = {}"
      by (simp add: noDoctorOnTwoDays_iff)
    with nx have "\<forall>k1 k2. k1 \<noteq> k2 \<longrightarrow>
        set (dayDoctorIds (handleAddDoctor allDoctors p d s) k1)
        \<inter> set (dayDoctorIds (handleAddDoctor allDoctors p d s) k2) = {}"
      by (simp add: eq)
    with AddDoctor show ?thesis
      by (simp add: noDoctorOnTwoDays_iff)
  qed
qed

lemma find_doctorInRegion:
  "find (\<lambda>d. doctor_id d = x) allDoctors = Some doc \<Longrightarrow>
     doctorInRegion allDoctors x (doctor_regionId doc)"
  by (auto simp: doctorInRegion_def find_Some_iff)

lemma doctorsInDayRegion_step:
  assumes "doctorsInDayRegion allDoctors p" and "addInDayRegion allDoctors p m"
  shows "doctorsInDayRegion allDoctors (apply_mutation allDoctors p m)"
proof (cases m)
  case (RegionChange d s)
  with assms(1) show ?thesis
    unfolding doctorsInDayRegion_iff
    by (auto simp: handleRegionChange_def update_conv' Let_def split: option.splits if_splits)
next
  case (RemoveDoctor d x)
  with assms(1) show ?thesis
    unfolding doctorsInDayRegion_iff
    by (auto simp: handleRemoveDoctor_def update_conv' split: option.splits if_splits)
next
  case (AddDoctor d s)
  with assms show ?thesis
    unfolding doctorsInDayRegion_iff
    by (auto simp: handleAddDoctor_def update_conv' split: option.splits if_splits
             dest: find_doctorInRegion)
qed

lemma noDoctorOnTwoDays_run:
  "noDoctorOnTwoDays p \<Longrightarrow> noDoctorOnTwoDays (run_mutations allDoctors p ms)"
  by (induction ms arbitrary: p) (auto intro: noDoctorOnTwoDays_step)

lemma doctorsInDayRegion_run:
  "doctorsInDayRegion allDoctors p \<Longrightarrow> addsInDayRegion allDoctors p ms \<Longrightarrow>
     doctorsInDayRegion allDoctors (run_mutations allDoctors p ms)"
  by (induction ms arbitrary: p) (auto intro: doctorsInDayRegion_step)

lemma offered_doctor_in_day_region:
  "doc \<in> set (availableDoctorsInRegion allDoctors p d) \<Longrightarrow> parseInt s = Some (doctor_id doc) \<Longrightarrow>
     addInDayRegion allDoctors p (AddDoctor d s)"
  by (auto simp: availableDoctorsInRegion_def doctorInRegion_def split: option.splits)

text \<open>
  C1 (as amended). From a valid plan, every sequence of the three editing handlers yields a
  plan in which no doctor id is listed under two days; and every doctor id listed under a
  day belongs to the day's region, provided each \<^verbatim>\<open>handleAddDoctor\<close> of a doctor not yet
  assigned, on a day that already has an assignment, names a doctor of that day's region.
  The handler does not compare
  regions itself: the doctor select of a day offers only such doctors
  (\<open>offered_doctor_in_day_region\<close>).
\<close>

theorem invariants_preserved:
  assumes "planValid allDoctors p"
  shows "noDoctorOnTwoDays (run_mutations allDoctors p ms)
       \<and> (addsInDayRegion allDoctors p ms \<longrightarrow> planValid allDoctors (run_mutations allDoctors p ms))"
  using assms
  by (simp add: planValid_def noDoctorOnTwoDays_run doctorsInDayRegion_run)

theorem invariants_preserved_witness:
  "planValid
     [\<lparr>doctor_id = 10, doctor_name = ''A'', doctor_regionId = 1, doctor_repId = ''rep-1'',
        specialization = ''PEDIATRICS''\<rparr>,
      \<lparr>doctor_id = 11, doctor_name = ''B'', doctor_regionId = 2, doctor_repId = ''rep-1'',
        specialization = ''PULMONOLOGY''\<rparr>]
     [(6, Some \<lparr>regionId = 1, doctorIds = []\<rparr>)]
   \<and> addsInDayRegion
     [\<lparr>doctor_id = 10, doctor_name = ''A'', doctor_regionId = 1, doctor_repId = ''rep-1'',
        specialization = ''PEDIATRICS''\<rparr>,
      \<lparr>doctor_id = 11, doctor_name = ''B'', doctor_regionId = 2, doctor_repId = ''rep-1'',
        specialization = ''PULMONOLOGY''\<rparr>]
     [(6, Some \<lparr>regionId = 1, doctorIds = []\<rparr>)]
     [AddDoctor 6 ''10'', AddDoctor 0 ''11'', AddDoctor 0 ''10'', RegionChange 1 ''2'',
      RemoveDoctor 0 11]
   \<and> planValid
     [\<lparr>doctor_id = 10, doctor_name = ''A'', doctor_regionId = 1, doctor_repId = ''rep-1'',
        specialization = ''PEDIATRICS''\<rparr>,
      \<lparr>doctor_id = 11, doctor_name = ''B'', doctor_regionId = 2, doctor_repId = ''rep-1'',
        specialization = ''PULMONOLOGY''\<rparr>]
     (run_mutations
        [\<lparr>doctor_id = 10, doctor_name = ''A'', doctor_regionId = 1, doctor_repId = ''rep-1'',
           specialization = ''PEDIATRICS''\<rparr>,
         \<lparr>doctor_id = 11, doctor_name = ''B'', doctor_regionId = 2, doctor_repId = ''rep-1'',
           specialization = ''PULMONOLOGY''\<rparr>]
        [(6, Some \<lparr>regionId = 1, doctorIds = []\<rparr>)]
        [AddDoctor 6 ''10'', AddDoctor 0 ''11'', AddDoctor 0 ''10'', RegionChange 1 ''2'',
         RemoveDoctor 0 11])
   \<and> run_mutations
        [\<lparr>doctor_id = 10, doctor_name = ''A'', doctor_regionId = 1, doctor_repId = ''rep-1'',
           specialization = ''PEDIATRICS''\<rparr>,
         \<lparr>doctor_id = 11, doctor_name = ''B'', doctor_regionId = 2, doctor_repId = ''rep-1'',
           specialization = ''PULMONOLOGY''\<rparr>]
        [(6, Some \<lparr>regionId = 1, doctorIds = []\<rparr>)]
        [AddDoctor 6 ''10'', AddDoctor 0 ''11'', AddDoctor 0 ''10'', RegionChange 1 ''2'',
         RemoveDoctor 0 11]
     = [(6, Some \<lparr>regionId = 1, doctorIds = [10]\<rparr>), (0, Some \<lparr>regionId = 2, doctorIds = []\<rparr>),
        (1, Some \<lparr>regionId = 2, doctorIds = []\<rparr>)]"
proof -
  let ?docs = "[\<lparr>doctor_id = 10, doctor_name = ''A'', doctor_regionId = 1, doctor_repId = ''rep-1'',
        specialization = ''PEDIATRICS''\<rparr>,
      \<lparr>doctor_id = 11, doctor_name = ''B'', doctor_regionId = 2, doctor_repId = ''rep-1'',
        specialization = ''PULMONOLOGY''\<rparr>]"
  let ?p = "[(6::int, Some \<lparr>regionId = 1, doctorIds = []\<rparr>)]"
  let ?ms = "[AddDoctor 6 ''10'', AddDoctor 0 ''11'', AddDoctor 0 ''10'', RegionChange 1 ''2'',
      RemoveDoctor 0 11]"
  have v: "planValid ?docs ?p" by code_simp
  have g: "addsInDayRegion ?docs ?p ?ms" by code_simp
  have r: "run_mutations ?docs ?p ?ms
     = [(6, Some \<lparr>regionId = 1, doctorIds = [10]\<rparr>), (0, Some \<lparr>regionId = 2, doctorIds = []\<rparr>),
        (1, Some \<lparr>regionId = 2, doctorIds = []\<rparr>)]" by code_simp
  from invariants_preserved [OF v, of ?ms] g
  have "planValid ?docs (run_mutations ?docs ?p ?ms)" by blast
  with v g r show ?thesis by simp
qed

theorem invariants_preserved_counterexample:
  "planValid
     [\<lparr>doctor_id = 10, doctor_name = ''A'', doctor_regionId = 2, doctor_repId = ''rep-1'',
        specialization = ''PEDIATRICS''\<rparr>]
     [(6, Some \<lparr>regionId = 1, doctorIds = []\<rparr>)]
   \<and> \<not> planValid
     [\<lparr>doctor_id = 10, doctor_name = ''A'', doctor_regionId = 2, doctor_repId = ''rep-1'',
        specialization = ''PEDIATRICS''\<rparr>]
     (run_mutations
        [\<lparr>doctor_id = 10, doctor_name = ''A'', doctor_regionId = 2, doctor_repId = ''rep-1'',
           specialization = ''PEDIATRICS''\<rparr>]
        [(6, Some \<lparr>regionId = 1, doctorIds = []\<rparr>)]
        [AddDoctor 6 ''10''])
   \<and> run_mutations
        [\<lparr>doctor_id = 10, doctor_name = ''A'', doctor_regionId = 2, doctor_repId = ''rep-1'',
           specialization = ''PEDIATRICS''\<rparr>]
        [(6, Some \<lparr>regionId = 1, doctorIds = []\<rparr>)]
        [AddDoctor 6 ''10'']
      = [(6, Some \<lparr>regionId = 1, doctorIds = [10]\<rparr>)]"
  by code_simp

section \<open>Properties of the planning window\<close>

lemma weekdayOf_add: "weekdayOf (n + k) = (weekdayOf n + k) mod 7"
  unfolding weekdayOf_def by presburger

lemma no_saturday_between:
  "weekdayOf a = 6 \<Longrightarrow> a < n \<Longrightarrow> n < a + 7 \<Longrightarrow> weekdayOf n \<noteq> 6"
  unfolding weekdayOf_def by presburger

lemma planStartDate_planning:
  assumes "isPlanningTime now"
  shows "planStartDate now = addDays now (6 - getDay now)"
    and "getDay now = 4 \<or> getDay now = 5"
  using assms
  by (auto simp: isPlanningTime_def planStartDate_def Let_def)

lemma planStartDate_viewing:
  assumes "\<not> isPlanningTime now"
  shows "planStartDate now = addDays now (- ((getDay now + 1) mod 7))"
  using assms by (simp add: planStartDate_def Let_def)

text \<open>
  C3. The planning window is active exactly on Thursday and Friday. When it is active the
  plan week starts on the first Saturday after today; otherwise it starts on the last
  Saturday that is not after today, which is today itself when today is a Saturday. The
  time of day is kept.
\<close>

theorem planning_window:
  "(isPlanningTime now \<longleftrightarrow> getDay now = 4 \<or> getDay now = 5)
   \<and> (isPlanningTime now \<longrightarrow>
        getDay (planStartDate now) = 6
        \<and> dayNumber now < dayNumber (planStartDate now)
        \<and> (\<forall>n. dayNumber now < n \<and> n < dayNumber (planStartDate now) \<longrightarrow> weekdayOf n \<noteq> 6)
        \<and> timeInDay (planStartDate now) = timeInDay now)
   \<and> (\<not> isPlanningTime now \<longrightarrow>
        getDay (planStartDate now) = 6
        \<and> dayNumber (planStartDate now) \<le> dayNumber now
        \<and> (\<forall>n. dayNumber (planStartDate now) < n \<and> n \<le> dayNumber now \<longrightarrow> weekdayOf n \<noteq> 6)
        \<and> timeInDay (planStartDate now) = timeInDay now)
   \<and> (getDay now = 6 \<longrightarrow> planStartDate now = now)"
proof (intro conjI impI)
  show "isPlanningTime now \<longleftrightarrow> getDay now = 4 \<or> getDay now = 5"
    by (simp add: isPlanningTime_def Let_def)
next
  assume p: "isPlanningTime now"
  note s = planStartDate_planning [OF p]
  from s show "getDay (planStartDate now) = 6"
    by (auto simp: getDay_def addDays_def weekdayOf_add)
  from s show "dayNumber now < dayNumber (planStartDate now)"
    by (auto simp: addDays_def)
  from s show "timeInDay (planStartDate now) = timeInDay now"
    by (simp add: addDays_def)
  show "\<forall>n. dayNumber now < n \<and> n < dayNumber (planStartDate now) \<longrightarrow> weekdayOf n \<noteq> 6"
  proof (intro allI impI)
    fix n assume n: "dayNumber now < n \<and> n < dayNumber (planStartDate now)"
    with s have "getDay now = 4" and "n = dayNumber now + 1"
      by (auto simp: addDays_def)
    then show "weekdayOf n \<noteq> 6"
      by (simp add: getDay_def weekdayOf_add)
  qed
next
  assume v: "\<not> isPlanningTime now"
  note s = planStartDate_viewing [OF v]
  let ?k = "(getDay now + 1) mod 7"
  have k: "0 \<le> ?k \<and> ?k < 7" by simp
  have sat: "weekdayOf (dayNumber now - ?k) = 6"
    unfolding getDay_def weekdayOf_def by presburger
  from s sat show "getDay (planStartDate now) = 6"
    by (simp add: getDay_def addDays_def)
  from s k show "dayNumber (planStartDate now) \<le> dayNumber now"
    by (simp add: addDays_def)
  from s show "timeInDay (planStartDate now) = timeInDay now"
    by (simp add: addDays_def)
  show "\<forall>n. dayNumber (planStartDate now) < n \<and> n \<le> dayNumber now \<longrightarrow> weekdayOf n \<noteq> 6"
  proof (intro allI impI)
    fix n assume n: "dayNumber (planStartDate now) < n \<and> n \<le> dayNumber now"
    with s k have "dayNumber now - ?k < n" and "n < dayNumber now - ?k + 7"
      by (auto simp: addDays_def)
    with sat show "weekdayOf n \<noteq> 6"
      by (rule no_saturday_between)
  qed
next
  assume "getDay now = 6"
  then show "planStartDate now = now"
    by (simp add: planStartDate_def isPlanningTime_def Let_def addDays_def)
qed

theorem planning_window_witness:
  "isPlanningTime \<lparr>dayNumber = 0, timeInDay = 900\<rparr>
   \<and> planStartDate \<lparr>dayNumber = 0, timeInDay = 900\<rparr> = \<lparr>dayNumber = 2, timeInDay = 900\<rparr>
   \<and> getDay (planStartDate \<lparr>dayNumber = 0, timeInDay = 900\<rparr>) = 6
   \<and> \<not> isPlanningTime \<lparr>dayNumber = 6, timeInDay = 900\<rparr>
   \<and> planStartDate \<lparr>dayNumber = 6, timeInDay = 900\<rparr> = \<lparr>dayNumber = 2, timeInDay = 900\<rparr>
   \<and> getDay (planStartDate \<lparr>dayNumber = 6, timeInDay = 900\<rparr>) = 6
   \<and> getDay \<lparr>dayNumber = 2, timeInDay = 900\<rparr> = 6
   \<and> planStartDate \<lparr>dayNumber = 2, timeInDay = 900\<rparr> = \<lparr>dayNumber = 2, timeInDay = 900\<rparr>"
proof -
  have a: "isPlanningTime \<lparr>dayNumber = 0, timeInDay = 900\<rparr>"
    by (simp add: isPlanningTime_def getDay_def weekdayOf_def)
  have b: "\<not> isPlanningTime \<lparr>dayNumber = 6, timeInDay = 900\<rparr>"
    by (simp add: isPlanningTime_def getDay_def weekdayOf_def)
  have c: "getDay \<lparr>dayNumber = 2, timeInDay = 900\<rparr> = 6"
    by (simp add: getDay_def weekdayOf_def)
  have e: "planStartDate \<lparr>dayNumber = 0, timeInDay = 900\<rparr> = \<lparr>dayNumber = 2, timeInDay = 900\<rparr>"
          "planStartDate \<lparr>dayNumber = 6, timeInDay = 900\<rparr> = \<lparr>dayNumber = 2, timeInDay = 900\<rparr>"
    by (simp_all add: planStartDate_def isPlanningTime_def getDay_def weekdayOf_def addDays_def)
  from planning_window [of "\<lparr>dayNumber = 0, timeInDay = 900\<rparr>"] a
  have 1: "getDay (planStartDate \<lparr>dayNumber = 0, timeInDay = 900\<rparr>) = 6" by blast
  from planning_window [of "\<lparr>dayNumber = 6, timeInDay = 900\<rparr>"] b
  have 2: "getDay (planStartDate \<lparr>dayNumber = 6, timeInDay = 900\<rparr>) = 6" by blast
  from planning_window [of "\<lparr>dayNumber = 2, timeInDay = 900\<rparr>"] c
  have 3: "planStartDate \<lparr>dayNumber = 2, timeInDay = 900\<rparr> = \<lparr>dayNumber = 2, timeInDay = 900\<rparr>" by blast
  from a b c e 1 2 3 show ?thesis by simp
qed

text \<open>
  C4. The representative may edit the plan exactly when its status is not
  \<^verbatim>\<open>approved\<close> or today is in the planning window: the weekly-plan action then opens the
  editor. For an approved plan outside the planning window it opens the read-only weekly
  view. With no plan loaded it opens the editor.
\<close>

theorem weekly_plan_editable:
  "(canEdit (Some wp) now \<longleftrightarrow> status wp \<noteq> approved \<or> isPlanningTime now)
   \<and> (handleWeeklyPlanClick (Some wp) now = view_plan \<longleftrightarrow> canEdit (Some wp) now)
   \<and> (status wp = approved \<and> \<not> isPlanningTime now \<longrightarrow>
        handleWeeklyPlanClick (Some wp) now = view_weekly)
   \<and> handleWeeklyPlanClick None now = view_plan"
  by (simp add: canEdit_def handleWeeklyPlanClick_def)

theorem weekly_plan_editable_witness:
  "status \<lparr>plan = [], status = approved\<rparr> = approved
   \<and> \<not> isPlanningTime \<lparr>dayNumber = 6, timeInDay = 0\<rparr>
   \<and> handleWeeklyPlanClick (Some \<lparr>plan = [], status = approved\<rparr>) \<lparr>dayNumber = 6, timeInDay = 0\<rparr>
       = view_weekly
   \<and> isPlanningTime \<lparr>dayNumber = 0, timeInDay = 0\<rparr>
   \<and> handleWeeklyPlanClick (Some \<lparr>plan = [], status = approved\<rparr>) \<lparr>dayNumber = 0, timeInDay = 0\<rparr>
       = view_plan
   \<and> handleWeeklyPlanClick (Some \<lparr>plan = [], status = pending\<rparr>) \<lparr>dayNumber = 6, timeInDay = 0\<rparr>
       = view_plan"
proof -
  have w: "\<not> isPlanningTime \<lparr>dayNumber = 6, timeInDay = 0\<rparr>"
    by (simp add: isPlanningTime_def getDay_def weekdayOf_def)
  have t: "isPlanningTime \<lparr>dayNumber = 0, timeInDay = 0\<rparr>"
    by (simp add: isPlanningTime_def getDay_def weekdayOf_def)
  from weekly_plan_editable [of "\<lparr>plan = [], status = approved\<rparr>" "\<lparr>dayNumber = 6, timeInDay = 0\<rparr>"]
       weekly_plan_editable [of "\<lparr>plan = [], status = approved\<rparr>" "\<lparr>dayNumber = 0, timeInDay = 0\<rparr>"]
       weekly_plan_editable [of "\<lparr>plan = [], status = pending\<rparr>" "\<lparr>dayNumber = 6, timeInDay = 0\<rparr>"]
       w t
  show ?thesis by simp
qed

section \<open>Properties of the store interface\<close>

lemma cleanedPlan_eq:
  "cleanedPlan planData =
     map (\<lambda>day. (day, case map_of planData day of Some (Some dayPlan) \<Rightarrow> Some dayPlan | _ \<Rightarrow> None))
         WORK_WEEK_DAYS"
proof -
  have step: "(case v of Some (Some dayPlan) \<Rightarrow> AList.update day (Some dayPlan) cleaned
               | _ \<Rightarrow> AList.update day None cleaned)
            = AList.update day (case v of Some (Some dayPlan) \<Rightarrow> Some dayPlan | _ \<Rightarrow> None) cleaned"
    for v :: "DayPlanDetails option option" and day :: int and cleaned
    by (simp split: option.splits)
  show ?thesis
    by (simp add: cleanedPlan_def step WORK_WEEK_DAYS_def)
qed

text \<open>
  C5. Submitting sends one upsert whose plan has exactly the seven weekday indices as keys,
  each with the day's assignment or the null marker, and the stored row is that plan with
  status \<^verbatim>\<open>pending\<close>, whatever row the store held before.
\<close>

theorem submit_persists_normalized_pending:
  "handleSave None db u planData =
     (db\<lparr>calls := calls db @ [UpdateRepPlan (user_id u) (cleanedPlan planData)],
         weekly_plans := (weekly_plans db)(user_id u \<mapsto> \<lparr>plan = cleanedPlan planData, status = pending\<rparr>)\<rparr>,
      ''plan_submitted_success'',
      Some \<lparr>plan = cleanedPlan planData, status = pending\<rparr>)
   \<and> map fst (cleanedPlan planData) = [6, 0, 1, 2, 3, 4, 5]
   \<and> (\<forall>day \<in> set [6, 0, 1, 2, 3, 4, 5].
        map_of (cleanedPlan planData) day =
          Some (case map_of planData day of Some (Some dayPlan) \<Rightarrow> Some dayPlan | _ \<Rightarrow> None))"
proof (intro conjI)
  show "handleSave None db u planData =
     (db\<lparr>calls := calls db @ [UpdateRepPlan (user_id u) (cleanedPlan planData)],
         weekly_plans := (weekly_plans db)(user_id u \<mapsto> \<lparr>plan = cleanedPlan planData, status = pending\<rparr>)\<rparr>,
      ''plan_submitted_success'',
      Some \<lparr>plan = cleanedPlan planData, status = pending\<rparr>)"
    by (simp add: handleSave_def updateRepPlan_def Let_def)
  show "map fst (cleanedPlan planData) = [6, 0, 1, 2, 3, 4, 5]"
    by (simp add: cleanedPlan_eq WORK_WEEK_DAYS_def)
  show "\<forall>day \<in> set [6, 0, 1, 2, 3, 4, 5].
        map_of (cleanedPlan planData) day =
          Some (case map_of planData day of Some (Some dayPlan) \<Rightarrow> Some dayPlan | _ \<Rightarrow> None)"
    by (simp add: cleanedPlan_eq WORK_WEEK_DAYS_def)
qed

theorem submit_persists_normalized_pending_witness:
  "handleSave None
     \<lparr>weekly_plans = [''rep-1'' \<mapsto> \<lparr>plan = [], status = approved\<rparr>], calls = []\<rparr>
     \<lparr>user_id = ''rep-1'', user_name = ''A'', username = ''a'', role = Rep\<rparr>
     [(6, Some \<lparr>regionId = 1, doctorIds = [10]\<rparr>), (0, None)]
   = (\<lparr>weekly_plans =
         [''rep-1'' \<mapsto>
            \<lparr>plan = [(6, Some \<lparr>regionId = 1, doctorIds = [10]\<rparr>), (0, None), (1, None),
                     (2, None), (3, None), (4, None), (5, None)],
             status = pending\<rparr>],
       calls = [UpdateRepPlan ''rep-1''
                  [(6, Some \<lparr>regionId = 1, doctorIds = [10]\<rparr>), (0, None), (1, None),
                   (2, None), (3, None), (4, None), (5, None)]]\<rparr>,
      ''plan_submitted_success'',
      Some \<lparr>plan = [(6, Some \<lparr>regionId = 1, doctorIds = [10]\<rparr>), (0, None), (1, None),
                    (2, None), (3, None), (4, None), (5, None)],
            status = pending\<rparr>)
   \<and> map_of (cleanedPlan [(6, Some \<lparr>regionId = 1, doctorIds = [10]\<rparr>), (0, None)]) 3 = Some None"
proof -
  have c: "cleanedPlan [(6, Some \<lparr>regionId = 1, doctorIds = [10]\<rparr>), (0, None)]
        = [(6, Some \<lparr>regionId = 1, doctorIds = [10]\<rparr>), (0, None), (1, None),
           (2, None), (3, None), (4, None), (5, None)]"
    by (simp add: cleanedPlan_def WORK_WEEK_DAYS_def)
  from submit_persists_normalized_pending
         [of "\<lparr>weekly_plans = [''rep-1'' \<mapsto> \<lparr>plan = [], status = approved\<rparr>], calls = []\<rparr>"
             "\<lparr>user_id = ''rep-1'', user_name = ''A'', username = ''a'', role = Rep\<rparr>"
             "[(6, Some \<lparr>regionId = 1, doctorIds = [10]\<rparr>), (0, None)]"]
  show ?thesis
    by (simp add: c)
qed

text \<open>
  C9. When the store holds no row for the representative, fetching the plan returns the
  draft with the empty plan, not an error.
\<close>

theorem fetch_missing_plan_is_draft:
  "weekly_plans db repId = None \<Longrightarrow>
     getRepPlan None db repId =
       (db\<lparr>calls := calls db @ [GetRepPlan repId]\<rparr>, Inr \<lparr>plan = [], status = draft\<rparr>)"
  by (simp add: getRepPlan_def Let_def)

theorem fetch_missing_plan_is_draft_witness:
  "weekly_plans \<lparr>weekly_plans = Map.empty, calls = []\<rparr> ''rep-1'' = None
   \<and> getRepPlan None \<lparr>weekly_plans = Map.empty, calls = []\<rparr> ''rep-1''
       = (\<lparr>weekly_plans = Map.empty, calls = [GetRepPlan ''rep-1'']\<rparr>, Inr \<lparr>plan = [], status = draft\<rparr>)"
proof -
  have h: "weekly_plans \<lparr>weekly_plans = Map.empty, calls = []\<rparr> ''rep-1'' = None"
    by simp
  from fetch_missing_plan_is_draft [OF h] h show ?thesis
    by simp
qed

section \<open>Properties of the plan lifecycle\<close>

lemma pendingPlans_status:
  "repId \<in> set (map fst (pendingPlans plans)) \<Longrightarrow>
     \<exists>wp. (repId, wp) \<in> set plans \<and> status wp = pending"
  unfolding pendingPlans_def by (induction plans) (auto split: if_splits)

lemma revoke_denied:
  "(case user st of None \<Rightarrow> True | Some u \<Rightarrow> role u \<noteq> Manager) \<Longrightarrow>
      handleRevokeApproval fault (st, db) repId =
        (st\<lparr>reviewMessage := Some \<lparr>text_key = ''error_permission_denied'', msg_type = error\<rparr>\<rparr>, db)"
  unfolding handleRevokeApproval_def by (simp only: fst_conv snd_conv if_True)

lemma reviewButtons_listed:
  assumes "reviewButtons st repId"
  shows "\<exists>u wp. user st = Some u \<and> (repId, wp) \<in> set (allPlans st)
                 \<and> listed (status wp) (role u) Approve \<and> listed (status wp) (role u) Reject"
proof -
  from assms have a: "case user st of None \<Rightarrow> False | Some u \<Rightarrow> showsManagerDashboard u"
    and b: "repId \<in> set (map fst (pendingPlans (allPlans st)))"
    unfolding reviewButtons_def by blast+
  from a obtain u where u: "user st = Some u" "showsManagerDashboard u"
    by (cases "user st") simp_all
  from b obtain wp where wp: "(repId, wp) \<in> set (allPlans st)" "status wp = pending"
    using pendingPlans_status by blast
  from u(2) have "role u = Manager \<or> role u = Supervisor"
    by (simp only: showsManagerDashboard_def)
  with wp(2) have "listed (status wp) (role u) Approve \<and> listed (status wp) (role u) Reject"
    by simp
  with u(1) wp(1) show ?thesis by blast
qed

lemma revokeButton_listed:
  assumes "revokeButton st repId"
  shows "\<exists>u wp. user st = Some u \<and> map_of (allPlans st) repId = Some wp
                 \<and> listed (status wp) (role u) Revoke"
proof -
  from assms have a: "case user st of None \<Rightarrow> False | Some u \<Rightarrow> showsManagerDashboard u \<and> role u = Manager"
    and b: "case map_of (allPlans st) repId of None \<Rightarrow> False | Some p \<Rightarrow> status p = approved"
    unfolding revokeButton_def by blast+
  from a obtain u where u: "user st = Some u" "role u = Manager"
    by (cases "user st") simp_all
  from b obtain wp where wp: "map_of (allPlans st) repId = Some wp" "status wp = approved"
    by (cases "map_of (allPlans st) repId") simp_all
  from u(2) wp(2) have "listed (status wp) (role u) Revoke"
    by simp
  with u(1) wp(1) show ?thesis by blast
qed

text \<open>
  C2 (as amended). A revoke attempted with no signed-in user or by a user who is not a
  manager returns before any request to the store: the store (its rows and its log of
  requests) and the local plans are what they were, and the message shown is the
  permission-denied message. The approve, reject and revoke buttons are rendered only for
  combinations of status and role that the transition table lists. The review handlers
  themselves compare no status, and submitting stores \<^verbatim>\<open>pending\<close> from any status.
\<close>

theorem revoke_denied_and_buttons_listed:
  "((case user st of None \<Rightarrow> True | Some u \<Rightarrow> role u \<noteq> Manager) \<longrightarrow>
      handleRevokeApproval fault (st, db) repId =
        (st\<lparr>reviewMessage := Some \<lparr>text_key = ''error_permission_denied'', msg_type = error\<rparr>\<rparr>, db))
   \<and> (reviewButtons st repId \<longrightarrow>
        (\<exists>u wp. user st = Some u \<and> (repId, wp) \<in> set (allPlans st)
                 \<and> listed (status wp) (role u) Approve \<and> listed (status wp) (role u) Reject))
   \<and> (revokeButton st repId \<longrightarrow>
        (\<exists>u wp. user st = Some u \<and> map_of (allPlans st) repId = Some wp
                 \<and> listed (status wp) (role u) Revoke))"
  using revoke_denied [of st fault db repId] reviewButtons_listed [of st repId]
        revokeButton_listed [of st repId]
  by blast

theorem revoke_denied_and_buttons_listed_witness:
  "handleRevokeApproval None
     (\<lparr>user = Some \<lparr>user_id = ''sup-1'', user_name = ''S'', username = ''s'', role = Supervisor\<rparr>,
       allPlans = [(''rep-1'', \<lparr>plan = [], status = approved\<rparr>),
                   (''rep-2'', \<lparr>plan = [], status = pending\<rparr>)],
       reviewMessage = None\<rparr>,
      \<lparr>weekly_plans = [''rep-1'' \<mapsto> \<lparr>plan = [], status = approved\<rparr>], calls = []\<rparr>)
     ''rep-1''
   = (\<lparr>user = Some \<lparr>user_id = ''sup-1'', user_name = ''S'', username = ''s'', role = Supervisor\<rparr>,
       allPlans = [(''rep-1'', \<lparr>plan = [], status = approved\<rparr>),
                   (''rep-2'', \<lparr>plan = [], status = pending\<rparr>)],
       reviewMessage = Some \<lparr>text_key = ''error_permission_denied'', msg_type = error\<rparr>\<rparr>,
      \<lparr>weekly_plans = [''rep-1'' \<mapsto> \<lparr>plan = [], status = approved\<rparr>], calls = []\<rparr>)
   \<and> reviewButtons
       \<lparr>user = Some \<lparr>user_id = ''sup-1'', user_name = ''S'', username = ''s'', role = Supervisor\<rparr>,
        allPlans = [(''rep-1'', \<lparr>plan = [], status = approved\<rparr>),
                    (''rep-2'', \<lparr>plan = [], status = pending\<rparr>)],
        reviewMessage = None\<rparr> ''rep-2''
   \<and> listed pending Supervisor Approve
   \<and> revokeButton
       \<lparr>user = Some \<lparr>user_id = ''mgr-1'', user_name = ''M'', username = ''m'', role = Manager\<rparr>,
        allPlans = [(''rep-1'', \<lparr>plan = [], status = approved\<rparr>)],
        reviewMessage = None\<rparr> ''rep-1''
   \<and> listed approved Manager Revoke"
proof -
  let ?st = "\<lparr>user = Some \<lparr>user_id = ''sup-1'', user_name = ''S'', username = ''s'', role = Supervisor\<rparr>,
       allPlans = [(''rep-1'', \<lparr>plan = [], status = approved\<rparr>),
                   (''rep-2'', \<lparr>plan = [], status = pending\<rparr>)],
       reviewMessage = None\<rparr>"
  let ?db = "\<lparr>weekly_plans = [''rep-1'' \<mapsto> \<lparr>plan = [], status = approved\<rparr>], calls = []\<rparr>"
  let ?mg = "\<lparr>user = Some \<lparr>user_id = ''mgr-1'', user_name = ''M'', username = ''m'', role = Manager\<rparr>,
        allPlans = [(''rep-1'', \<lparr>plan = [], status = approved\<rparr>)],
        reviewMessage = None\<rparr>"
  have h: "case user ?st of None \<Rightarrow> True | Some u \<Rightarrow> role u \<noteq> Manager"
    by simp
  have b: "reviewButtons ?st ''rep-2''"
    by (simp add: reviewButtons_def pendingPlans_def showsManagerDashboard_def)
  have r: "revokeButton ?mg ''rep-1''"
    by (simp add: revokeButton_def showsManagerDashboard_def)
  from revoke_denied_and_buttons_listed [of ?st None ?db "''rep-1''"] h
  have "handleRevokeApproval None (?st, ?db) ''rep-1''
      = (?st\<lparr>reviewMessage := Some \<lparr>text_key = ''error_permission_denied'', msg_type = error\<rparr>\<rparr>, ?db)"
    by blast
  with b r show ?thesis by simp
qed

theorem lifecycle_legality_counterexample:
  "\<not> listed approved Rep Submit
   \<and> canEdit (Some \<lparr>plan = [], status = approved\<rparr>) \<lparr>dayNumber = 0, timeInDay = 0\<rparr>
   \<and> handleSave None
       \<lparr>weekly_plans = [''rep-1'' \<mapsto> \<lparr>plan = [], status = approved\<rparr>], calls = []\<rparr>
       \<lparr>user_id = ''rep-1'', user_name = ''R'', username = ''r'', role = Rep\<rparr>
       []
     = (\<lparr>weekly_plans =
           [''rep-1'' \<mapsto>
              \<lparr>plan = [(6, None), (0, None), (1, None), (2, None), (3, None), (4, None), (5, None)],
               status = pending\<rparr>],
         calls = [UpdateRepPlan ''rep-1''
                    [(6, None), (0, None), (1, None), (2, None), (3, None), (4, None), (5, None)]]\<rparr>,
        ''plan_submitted_success'',
        Some \<lparr>plan = [(6, None), (0, None), (1, None), (2, None), (3, None), (4, None), (5, None)],
              status = pending\<rparr>)
   \<and> \<not> listed draft Manager Approve
   \<and> handleReviewPlan None
       (\<lparr>user = Some \<lparr>user_id = ''mgr-1'', user_name = ''M'', username = ''m'', role = Manager\<rparr>,
         allPlans = [(''rep-1'', \<lparr>plan = [], status = draft\<rparr>)],
         reviewMessage = None\<rparr>,
        \<lparr>weekly_plans = [''rep-1'' \<mapsto> \<lparr>plan = [], status = draft\<rparr>], calls = []\<rparr>)
       ''rep-1'' approved
     = (\<lparr>user = Some \<lparr>user_id = ''mgr-1'', user_name = ''M'', username = ''m'', role = Manager\<rparr>,
         allPlans = [(''rep-1'', \<lparr>plan = [], status = approved\<rparr>)],
         reviewMessage = Some \<lparr>text_key = ''plan_approved_success'', msg_type = success\<rparr>\<rparr>,
        \<lparr>weekly_plans = [''rep-1'' \<mapsto> \<lparr>plan = [], status = approved\<rparr>],
          calls = [ReviewRepPlan ''rep-1'' approved]\<rparr>)"
  by (simp add: canEdit_def isPlanningTime_def getDay_def weekdayOf_def
                handleSave_def updateRepPlan_def cleanedPlan_def WORK_WEEK_DAYS_def
                handleReviewPlan_def reviewRepPlan_def setStatus_def optimisticStatus_def Let_def)

section \<open>Properties of the monthly visit frequency\<close>

lemma countVisit_keys: "distinct (map fst vc) \<Longrightarrow> distinct (map fst (countVisit key vc))"
  by (simp add: countVisit_def Let_def distinct_update)

lemma inheritedText_own: "n \<notin> set objectPrototypeMembers \<Longrightarrow> inheritedText n = None"
  by (simp add: inheritedText_def objectPrototypeMembers_def)

lemma inheritedText_member:
  "n \<in> set objectPrototypeMembers \<Longrightarrow> \<exists>t. inheritedText n = Some t"
  by (auto simp: inheritedText_def objectPrototypeMembers_def)

lemma proto_member: "''__proto__'' \<in> set objectPrototypeMembers"
  by (simp add: objectPrototypeMembers_def)

lemma map_of_countVisit_other:
  "n \<noteq> key \<Longrightarrow> map_of (countVisit key vc) n = map_of vc n"
  by (simp add: countVisit_def Let_def update_conv')

lemma map_of_countVisit_own:
  assumes "n \<notin> set objectPrototypeMembers" and "\<forall>t. map_of vc n \<noteq> Some (JSText t)"
  shows "map_of (countVisit n vc) n = Some (JSNumber (countOf vc n + 1))"
proof -
  from assms(1) have np: "n \<noteq> ''__proto__''"
    using proto_member by blast
  show ?thesis
  proof (cases "map_of vc n")
    case None
    with np assms(1) show ?thesis
      by (simp add: countVisit_def Let_def update_conv' nextCount_def countOf_def inheritedText_own)
  next
    case (Some v)
    with assms(2) obtain c where "v = JSNumber c"
      by (cases v) auto
    with Some np show ?thesis
      by (simp add: countVisit_def Let_def update_conv' nextCount_def countOf_def)
  qed
qed

lemma fold_counts_distinct:
  "distinct (map fst vc) \<Longrightarrow>
     distinct (map fst (fold (\<lambda>visit visitCounts. if Q visit then countVisit (targetName visit) visitCounts
                                                 else visitCounts) vs vc))"
  by (induction vs arbitrary: vc) (simp_all add: countVisit_keys)

lemma fold_counts_own:
  assumes "n \<notin> set objectPrototypeMembers"
  shows "\<forall>t. map_of vc n \<noteq> Some (JSText t) \<Longrightarrow>
     map_of (fold (\<lambda>visit visitCounts. if Q visit then countVisit (targetName visit) visitCounts
                                      else visitCounts) vs vc) n =
     (let c = length (filter (\<lambda>v. Q v \<and> targetName v = n) vs) in
      if c = 0 then map_of vc n else Some (JSNumber (countOf vc n + c)))"
proof (induction vs arbitrary: vc)
  case Nil
  show ?case by simp
next
  case (Cons v vs)
  show ?case
  proof (cases "Q v \<and> targetName v = n")
    case True
    have m: "map_of (countVisit n vc) n = Some (JSNumber (countOf vc n + 1))"
      using assms Cons.prems by (rule map_of_countVisit_own)
    then have p: "\<forall>t. map_of (countVisit n vc) n \<noteq> Some (JSText t)"
      by simp
    from m have c: "countOf (countVisit n vc) n = countOf vc n + 1"
      by (simp add: countOf_def)
    from True show ?thesis
      by (simp add: Cons.IH [OF p] m c Let_def)
  next
    case False
    show ?thesis
    proof (cases "Q v")
      case True
      with False have ne: "n \<noteq> targetName v" by blast
      then have m: "map_of (countVisit (targetName v) vc) n = map_of vc n"
        by (rule map_of_countVisit_other)
      then have p: "\<forall>t. map_of (countVisit (targetName v) vc) n \<noteq> Some (JSText t)"
        using Cons.prems by simp
      from m have c: "countOf (countVisit (targetName v) vc) n = countOf vc n"
        by (simp add: countOf_def)
      from True ne show ?thesis
        by (simp add: Cons.IH [OF p] m c Let_def)
    next
      case False
      then show ?thesis
        by (simp add: Cons.IH [OF Cons.prems] Let_def)
    qed
  qed
qed

lemma countVisit_member:
  assumes "n \<in> set objectPrototypeMembers" and "textOrMissing vc n"
  shows "textOrMissing (countVisit key vc) n"
proof (cases "key = n \<and> n \<noteq> ''__proto__''")
  case True
  from assms(1) obtain t where t: "inheritedText n = Some t"
    using inheritedText_member by blast
  have "\<exists>s. nextCount vc n = JSText s \<and> s \<noteq> []"
  proof (cases "map_of vc n")
    case None
    with t show ?thesis by (simp add: nextCount_def)
  next
    case (Some v)
    with assms(2) obtain s where "v = JSText s" "s \<noteq> []"
      by (cases v) (simp_all add: textOrMissing_def)
    with Some show ?thesis by (simp add: nextCount_def)
  qed
  with True show ?thesis
    by (auto simp: countVisit_def Let_def update_conv' textOrMissing_def)
next
  case False
  then have "map_of (countVisit key vc) n = map_of vc n"
    by (auto simp: countVisit_def Let_def update_conv')
  with assms(2) show ?thesis
    by (simp add: textOrMissing_def)
qed

lemma fold_counts_member:
  assumes "n \<in> set objectPrototypeMembers"
  shows "textOrMissing vc n \<Longrightarrow>
     textOrMissing (fold (\<lambda>visit visitCounts. if Q visit then countVisit (targetName visit) visitCounts
                                             else visitCounts) vs vc) n"
proof (induction vs arbitrary: vc)
  case Nil
  then show ?case by simp
next
  case (Cons v vs)
  from assms Cons.prems have "textOrMissing (countVisit (targetName v) vc) n"
    by (rule countVisit_member)
  with Cons show ?case by simp
qed

lemma monthlyVisitCounts_distinct:
  "distinct (map fst (monthlyVisitCounts parseDate today visits))"
  unfolding monthlyVisitCounts_def by (rule fold_counts_distinct) simp

lemma monthlyVisitCounts_own:
  "n \<notin> set objectPrototypeMembers \<Longrightarrow>
     map_of (monthlyVisitCounts parseDate today visits) n =
       (if timesVisited parseDate today visits n = 0 then None
        else Some (JSNumber (timesVisited parseDate today visits n)))"
  unfolding monthlyVisitCounts_def timesVisited_def
  by (simp add: fold_counts_own Let_def countOf_def)

lemma monthlyVisitCounts_member:
  "n \<in> set objectPrototypeMembers \<Longrightarrow>
     map_of (monthlyVisitCounts parseDate today visits) n \<noteq> Some (JSNumber c)"
proof -
  assume "n \<in> set objectPrototypeMembers"
  then have "textOrMissing (monthlyVisitCounts parseDate today visits) n"
    unfolding monthlyVisitCounts_def by (rule fold_counts_member) (simp add: textOrMissing_def)
  then show ?thesis
    by (auto simp: textOrMissing_def)
qed

lemma fold_bucket:
  "fold bucket cs f =
     \<lparr>freq1 = freq1 f + length (filter (isCount (\<lambda>c. c = 1)) cs),
      freq2 = freq2 f + length (filter (isCount (\<lambda>c. c = 2)) cs),
      freq3 = freq3 f + length (filter (isCount (\<lambda>c. 3 \<le> c)) cs)\<rparr>"
proof (induction cs arbitrary: f)
  case Nil
  show ?case by simp
next
  case (Cons c cs)
  show ?case
    by (simp add: Cons.IH) (cases c; simp add: bucket_def isCount_def)
qed

lemma frequencyOfCounts_eq:
  "frequencyOfCounts vc =
     \<lparr>freq1 = length (filter (\<lambda>e. isCount (\<lambda>c. c = 1) (snd e)) vc),
      freq2 = length (filter (\<lambda>e. isCount (\<lambda>c. c = 2) (snd e)) vc),
      freq3 = length (filter (\<lambda>e. isCount (\<lambda>c. 3 \<le> c) (snd e)) vc)\<rparr>"
  by (simp add: frequencyOfCounts_def fold_bucket filter_map o_def)

lemma count_entries:
  assumes "distinct (map fst al)"
  shows "length (filter (\<lambda>e. P (snd e)) al) = card {k. \<exists>c. map_of al k = Some c \<and> P c}"
proof -
  have d: "distinct (map fst (filter (\<lambda>e. P (snd e)) al))"
    using assms by (rule distinct_map_filter)
  have "{k. \<exists>c. map_of al k = Some c \<and> P c} = set (map fst (filter (\<lambda>e. P (snd e)) al))"
    using assms by (auto simp: image_iff)
  then have "card {k. \<exists>c. map_of al k = Some c \<and> P c}
           = length (map fst (filter (\<lambda>e. P (snd e)) al))"
    using d by (simp only: distinct_card)
  then show ?thesis by simp
qed

lemma visited_in_names:
  assumes "timesVisited parseDate today visits name \<noteq> 0"
  shows "name \<in> set (map targetName visits)"
proof -
  from assms have "filter (\<lambda>v. countsThisMonth parseDate today v \<and> targetName v = name) visits \<noteq> []"
    by (simp add: timesVisited_def)
  then obtain v where "v \<in> set visits" "targetName v = name"
    by (auto simp: filter_empty_conv)
  then show ?thesis by auto
qed

lemma visited_counts_this_month:
  assumes "timesVisited parseDate today visits name \<noteq> 0"
  shows "\<exists>v \<in> set visits. countsThisMonth parseDate today v \<and> targetName v = name"
proof -
  from assms have "filter (\<lambda>v. countsThisMonth parseDate today v \<and> targetName v = name) visits \<noteq> []"
    by (simp add: timesVisited_def)
  then show ?thesis
    by (auto simp: filter_empty_conv)
qed

lemma counted_targets:
  assumes "\<not> P 0"
  shows "length (filter (\<lambda>e. isCount P (snd e)) (monthlyVisitCounts parseDate today visits))
       = ownTargetsVisited parseDate today visits P"
proof -
  let ?al = "monthlyVisitCounts parseDate today visits"
  let ?t = "timesVisited parseDate today visits"
  have "{k. \<exists>v. map_of ?al k = Some v \<and> isCount P v}
      = {name \<in> set (map targetName visits). name \<notin> set objectPrototypeMembers \<and> P (?t name)}"
  proof (intro set_eqI iffI)
    fix k assume "k \<in> {k. \<exists>v. map_of ?al k = Some v \<and> isCount P v}"
    then obtain v where v: "map_of ?al k = Some v" "isCount P v" by blast
    then obtain c where c: "v = JSNumber c" "P c"
      by (cases v) (simp_all add: isCount_def)
    from v(1) c(1) have own: "k \<notin> set objectPrototypeMembers"
      using monthlyVisitCounts_member [of k parseDate today visits c] by blast
    with v(1) c(1) have "?t k \<noteq> 0 \<and> c = ?t k"
      by (auto simp: monthlyVisitCounts_own split: if_splits)
    with c(2) own visited_in_names [of parseDate today visits k]
    show "k \<in> {name \<in> set (map targetName visits).
                 name \<notin> set objectPrototypeMembers \<and> P (?t name)}"
      by blast
  next
    fix k assume "k \<in> {name \<in> set (map targetName visits).
                         name \<notin> set objectPrototypeMembers \<and> P (?t name)}"
    then have own: "k \<notin> set objectPrototypeMembers" and p: "P (?t k)" by blast+
    from p assms have "?t k \<noteq> 0"
      by (cases "?t k = 0") simp_all
    with own have "map_of ?al k = Some (JSNumber (?t k))"
      by (simp add: monthlyVisitCounts_own)
    with p show "k \<in> {k. \<exists>v. map_of ?al k = Some v \<and> isCount P v}"
      by (simp add: isCount_def)
  qed
  then show ?thesis
    by (simp only: count_entries [OF monthlyVisitCounts_distinct] ownTargetsVisited_def)
qed

lemma frequency_of_month:
  "frequencyOfCounts (monthlyVisitCounts parseDate today visits) =
     \<lparr>freq1 = ownTargetsVisited parseDate today visits (\<lambda>c. c = 1),
      freq2 = ownTargetsVisited parseDate today visits (\<lambda>c. c = 2),
      freq3 = ownTargetsVisited parseDate today visits (\<lambda>c. 3 \<le> c)\<rparr>"
proof -
  have 1: "length (filter (\<lambda>e. isCount (\<lambda>c. c = 1) (snd e)) (monthlyVisitCounts parseDate today visits))
         = ownTargetsVisited parseDate today visits (\<lambda>c. c = 1)"
    by (rule counted_targets) simp
  have 2: "length (filter (\<lambda>e. isCount (\<lambda>c. c = 2) (snd e)) (monthlyVisitCounts parseDate today visits))
         = ownTargetsVisited parseDate today visits (\<lambda>c. c = 2)"
    by (rule counted_targets) simp
  have 3: "length (filter (\<lambda>e. isCount (\<lambda>c. 3 \<le> c) (snd e)) (monthlyVisitCounts parseDate today visits))
         = ownTargetsVisited parseDate today visits (\<lambda>c. 3 \<le> c)"
    by (rule counted_targets) simp
  show ?thesis
    by (simp only: frequencyOfCounts_eq 1 2 3)
qed

lemma own_targets_all:
  assumes "\<forall>v \<in> set visits. countsThisMonth parseDate today v \<longrightarrow>
             targetName v \<notin> set objectPrototypeMembers"
    and "\<not> P 0"
  shows "ownTargetsVisited parseDate today visits P = targetsVisited parseDate today visits P"
proof -
  have "name \<notin> set objectPrototypeMembers"
    if "P (timesVisited parseDate today visits name)" for name
  proof -
    from that assms(2) have "timesVisited parseDate today visits name \<noteq> 0"
      by (cases "timesVisited parseDate today visits name = 0") simp_all
    then obtain v where "v \<in> set visits" "countsThisMonth parseDate today v" "targetName v = name"
      using visited_counts_this_month by blast
    with assms(1) show ?thesis by blast
  qed
  then have "{name \<in> set (map targetName visits).
               name \<notin> set objectPrototypeMembers \<and> P (timesVisited parseDate today visits name)}
           = {name \<in> set (map targetName visits). P (timesVisited parseDate today visits name)}"
    by blast
  then show ?thesis
    by (simp only: ownTargetsVisited_def targetsVisited_def)
qed

lemma monthlyVisitCounts_filter:
  "fold (\<lambda>visit visitCounts. if Q visit then countVisit (targetName visit) visitCounts
                              else visitCounts) (filter Q vs) vc
   = fold (\<lambda>visit visitCounts. if Q visit then countVisit (targetName visit) visitCounts
                                else visitCounts) vs vc"
  by (induction vs arbitrary: vc) simp_all

lemma one_two_three:
  assumes d: "a \<noteq> b" "a \<noteq> c" "b \<noteq> c"
    and own: "a \<notin> set objectPrototypeMembers" "b \<notin> set objectPrototypeMembers"
             "c \<notin> set objectPrototypeMembers"
    and a: "timesVisited parseDate today visits a = 1"
    and b: "timesVisited parseDate today visits b = 2"
    and c: "3 \<le> timesVisited parseDate today visits c"
    and others: "\<forall>n. n \<notin> {a, b, c} \<longrightarrow> timesVisited parseDate today visits n = 0"
  shows "frequencyOfCounts (monthlyVisitCounts parseDate today visits)
           = \<lparr>freq1 = 1, freq2 = 1, freq3 = 1\<rparr>"
proof -
  let ?t = "timesVisited parseDate today visits"
  let ?N = "set (map targetName visits)"
  let ?M = "set objectPrototypeMembers"
  have na: "a \<in> ?N" using a by (intro visited_in_names [of parseDate today]) simp
  have nb: "b \<in> ?N" using b by (intro visited_in_names [of parseDate today]) simp
  have nc: "c \<in> ?N" using c by (intro visited_in_names [of parseDate today]) simp
  have zero: "?t n = 0 \<or> n = a \<or> n = b \<or> n = c" for n
    using others by blast
  have "{name \<in> ?N. name \<notin> ?M \<and> ?t name = 1} = {a}"
  proof (intro set_eqI iffI)
    fix n assume "n \<in> {name \<in> ?N. name \<notin> ?M \<and> ?t name = 1}"
    then have "?t n = 1" by simp
    with zero [of n] b c show "n \<in> {a}" by auto
  next
    fix n assume "n \<in> {a}"
    with a na own(1) show "n \<in> {name \<in> ?N. name \<notin> ?M \<and> ?t name = 1}" by simp
  qed
  then have 1: "ownTargetsVisited parseDate today visits (\<lambda>c. c = 1) = 1"
    by (simp add: ownTargetsVisited_def)
  have "{name \<in> ?N. name \<notin> ?M \<and> ?t name = 2} = {b}"
  proof (intro set_eqI iffI)
    fix n assume "n \<in> {name \<in> ?N. name \<notin> ?M \<and> ?t name = 2}"
    then have "?t n = 2" by simp
    with zero [of n] a c show "n \<in> {b}" by auto
  next
    fix n assume "n \<in> {b}"
    with b nb own(2) show "n \<in> {name \<in> ?N. name \<notin> ?M \<and> ?t name = 2}" by simp
  qed
  then have 2: "ownTargetsVisited parseDate today visits (\<lambda>c. c = 2) = 1"
    by (simp add: ownTargetsVisited_def)
  have "{name \<in> ?N. name \<notin> ?M \<and> 3 \<le> ?t name} = {c}"
  proof (intro set_eqI iffI)
    fix n assume "n \<in> {name \<in> ?N. name \<notin> ?M \<and> 3 \<le> ?t name}"
    then have "3 \<le> ?t n" by simp
    with zero [of n] a b show "n \<in> {c}" by auto
  next
    fix n assume "n \<in> {c}"
    with c nc own(3) show "n \<in> {name \<in> ?N. name \<notin> ?M \<and> 3 \<le> ?t name}" by simp
  qed
  then have 3: "ownTargetsVisited parseDate today visits (\<lambda>c. 3 \<le> c) = 1"
    by (simp add: ownTargetsVisited_def)
  show ?thesis
    by (simp only: frequency_of_month 1 2 3)
qed

lemma dateLe_refl: "dateLe d d"
  by (simp add: dateLe_def)

lemma startOfMonth_le: "1 \<le> dayOfMonth today \<Longrightarrow> dateLe (startOfMonth today) today"
  by (auto simp: dateLe_def startOfMonth_def)

lemma prototype_name_not_counted:
  "rep_visitFrequency
      (\<lambda>s. if s = ''2024-05-10T09:00:00'' then Some \<lparr>fullYear = 2024, monthIndex = 4, dayOfMonth = 10, timeOfDay = 32400000\<rparr> else None)
      \<lparr>fullYear = 2024, monthIndex = 4, dayOfMonth = 20, timeOfDay = 43200000\<rparr>
      [\<lparr>report_id = ''1'', report_type = DOCTOR_VISIT, repName = ''Rep One'', regionName = ''North'',
          targetName = ''constructor'', report_notes = ''ok'', report_date = ''2024-05-10T09:00:00''\<rparr>]
    = \<lparr>freq1 = 0, freq2 = 0, freq3 = 0\<rparr>"
  by (simp add: rep_visitFrequency_def monthlyVisitCounts_def countsThisMonth_def dateLe_def
                startOfMonth_def countVisit_def nextCount_def inheritedText_def
                objectPrototypeFunctions_def frequencyOfCounts_def bucket_def)

lemma prototype_name_visited_once:
  "targetsVisited
      (\<lambda>s. if s = ''2024-05-10T09:00:00'' then Some \<lparr>fullYear = 2024, monthIndex = 4, dayOfMonth = 10, timeOfDay = 32400000\<rparr> else None)
      \<lparr>fullYear = 2024, monthIndex = 4, dayOfMonth = 20, timeOfDay = 43200000\<rparr>
      [\<lparr>report_id = ''1'', report_type = DOCTOR_VISIT, repName = ''Rep One'', regionName = ''North'',
          targetName = ''constructor'', report_notes = ''ok'', report_date = ''2024-05-10T09:00:00''\<rparr>]
      (\<lambda>c. c = 1)
    = 1"
proof -
  have "{name \<in> set (map targetName [\<lparr>report_id = ''1'', report_type = DOCTOR_VISIT, repName = ''Rep One'', regionName = ''North'',
          targetName = ''constructor'', report_notes = ''ok'', report_date = ''2024-05-10T09:00:00''\<rparr>]).
           timesVisited (\<lambda>s. if s = ''2024-05-10T09:00:00'' then Some \<lparr>fullYear = 2024, monthIndex = 4, dayOfMonth = 10, timeOfDay = 32400000\<rparr> else None) \<lparr>fullYear = 2024, monthIndex = 4, dayOfMonth = 20, timeOfDay = 43200000\<rparr> [\<lparr>report_id = ''1'', report_type = DOCTOR_VISIT, repName = ''Rep One'', regionName = ''North'',
          targetName = ''constructor'', report_notes = ''ok'', report_date = ''2024-05-10T09:00:00''\<rparr>] name = 1} = {''constructor''}"
    by (auto simp: timesVisited_def countsThisMonth_def dateLe_def startOfMonth_def)
  then show ?thesis
    by (simp only: targetsVisited_def) simp
qed

text \<open>
  C8. Both dashboards compute the same frequency. Among the doctor visits whose date lies
  between the start of the current month and now, both ends included, \<open>freq1\<close> is the
  number of target names visited once, \<open>freq2\<close> twice and \<open>freq3\<close> three times or more,
  counted over the names that are not members of \<^verbatim>\<open>Object.prototype\<close>; pharmacy visits,
  visits outside this window and visits with an invalid date count for nothing. When no
  visit of the month names a member of \<^verbatim>\<open>Object.prototype\<close> this is the number over all
  target names, and one name visited once, another twice and a third three times or more
  give one in each bucket. A target named \<^verbatim>\<open>constructor\<close> and visited once this month is
  in no bucket: the frequency computed is all zero where one target was visited once.
\<close>

theorem monthly_visit_frequency:
  "rep_visitFrequency parseDate today visits =
      \<lparr>freq1 = ownTargetsVisited parseDate today visits (\<lambda>c. c = 1),
       freq2 = ownTargetsVisited parseDate today visits (\<lambda>c. c = 2),
       freq3 = ownTargetsVisited parseDate today visits (\<lambda>c. 3 \<le> c)\<rparr>
   \<and> manager_visitFrequency parseDate today visits selectedRep =
       rep_visitFrequency parseDate today
         (if selectedRep = ''all'' then visits else filter (\<lambda>r. repName r = selectedRep) visits)
   \<and> rep_visitFrequency parseDate today (filter (countsThisMonth parseDate today) visits)
       = rep_visitFrequency parseDate today visits
   \<and> (countsThisMonth parseDate today v \<longleftrightarrow>
        report_type v = DOCTOR_VISIT
        \<and> (\<exists>d. parseDate (report_date v) = Some d \<and> dateLe (startOfMonth today) d \<and> dateLe d today))
   \<and> dateLe today today
   \<and> dateLe (startOfMonth today) (startOfMonth today)
   \<and> (1 \<le> dayOfMonth today \<longrightarrow> dateLe (startOfMonth today) today)
   \<and> ((\<forall>v \<in> set visits. countsThisMonth parseDate today v \<longrightarrow>
           targetName v \<notin> set objectPrototypeMembers) \<longrightarrow>
        rep_visitFrequency parseDate today visits =
          \<lparr>freq1 = targetsVisited parseDate today visits (\<lambda>c. c = 1),
           freq2 = targetsVisited parseDate today visits (\<lambda>c. c = 2),
           freq3 = targetsVisited parseDate today visits (\<lambda>c. 3 \<le> c)\<rparr>)
   \<and> (\<forall>a b c. a \<noteq> b \<and> a \<noteq> c \<and> b \<noteq> c
          \<and> a \<notin> set objectPrototypeMembers \<and> b \<notin> set objectPrototypeMembers
          \<and> c \<notin> set objectPrototypeMembers
          \<and> timesVisited parseDate today visits a = 1
          \<and> timesVisited parseDate today visits b = 2
          \<and> 3 \<le> timesVisited parseDate today visits c
          \<and> (\<forall>n. n \<notin> {a, b, c} \<longrightarrow> timesVisited parseDate today visits n = 0)
        \<longrightarrow> rep_visitFrequency parseDate today visits = \<lparr>freq1 = 1, freq2 = 1, freq3 = 1\<rparr>)
   \<and> rep_visitFrequency
        (\<lambda>s. if s = ''2024-05-10T09:00:00'' then Some \<lparr>fullYear = 2024, monthIndex = 4, dayOfMonth = 10, timeOfDay = 32400000\<rparr> else None)
        \<lparr>fullYear = 2024, monthIndex = 4, dayOfMonth = 20, timeOfDay = 43200000\<rparr>
        [\<lparr>report_id = ''1'', report_type = DOCTOR_VISIT, repName = ''Rep One'', regionName = ''North'',
          targetName = ''constructor'', report_notes = ''ok'', report_date = ''2024-05-10T09:00:00''\<rparr>]
       = \<lparr>freq1 = 0, freq2 = 0, freq3 = 0\<rparr>
   \<and> targetsVisited
        (\<lambda>s. if s = ''2024-05-10T09:00:00'' then Some \<lparr>fullYear = 2024, monthIndex = 4, dayOfMonth = 10, timeOfDay = 32400000\<rparr> else None)
        \<lparr>fullYear = 2024, monthIndex = 4, dayOfMonth = 20, timeOfDay = 43200000\<rparr>
        [\<lparr>report_id = ''1'', report_type = DOCTOR_VISIT, repName = ''Rep One'', regionName = ''North'',
          targetName = ''constructor'', report_notes = ''ok'', report_date = ''2024-05-10T09:00:00''\<rparr>]
        (\<lambda>c. c = 1)
       = 1"
proof (intro conjI allI impI)
  show own: "rep_visitFrequency parseDate today visits =
      \<lparr>freq1 = ownTargetsVisited parseDate today visits (\<lambda>c. c = 1),
       freq2 = ownTargetsVisited parseDate today visits (\<lambda>c. c = 2),
       freq3 = ownTargetsVisited parseDate today visits (\<lambda>c. 3 \<le> c)\<rparr>"
    by (simp only: rep_visitFrequency_def frequency_of_month)
  show "manager_visitFrequency parseDate today visits selectedRep =
       rep_visitFrequency parseDate today
         (if selectedRep = ''all'' then visits else filter (\<lambda>r. repName r = selectedRep) visits)"
    by (simp only: manager_visitFrequency_def rep_visitFrequency_def Let_def)
  show "rep_visitFrequency parseDate today (filter (countsThisMonth parseDate today) visits)
       = rep_visitFrequency parseDate today visits"
    by (simp only: rep_visitFrequency_def monthlyVisitCounts_def monthlyVisitCounts_filter)
  show "countsThisMonth parseDate today v \<longleftrightarrow>
        report_type v = DOCTOR_VISIT
        \<and> (\<exists>d. parseDate (report_date v) = Some d \<and> dateLe (startOfMonth today) d \<and> dateLe d today)"
    by (cases "parseDate (report_date v)") (simp_all add: countsThisMonth_def conj_commute)
  show "dateLe today today" by (rule dateLe_refl)
  show "dateLe (startOfMonth today) (startOfMonth today)" by (rule dateLe_refl)
  show "dateLe (startOfMonth today) today" if "1 \<le> dayOfMonth today"
    using that by (rule startOfMonth_le)
  show "rep_visitFrequency parseDate today visits =
          \<lparr>freq1 = targetsVisited parseDate today visits (\<lambda>c. c = 1),
           freq2 = targetsVisited parseDate today visits (\<lambda>c. c = 2),
           freq3 = targetsVisited parseDate today visits (\<lambda>c. 3 \<le> c)\<rparr>"
    if h: "\<forall>v \<in> set visits. countsThisMonth parseDate today v \<longrightarrow>
           targetName v \<notin> set objectPrototypeMembers"
  proof -
    have 1: "ownTargetsVisited parseDate today visits (\<lambda>c. c = 1)
           = targetsVisited parseDate today visits (\<lambda>c. c = 1)"
      using h by (rule own_targets_all) simp
    have 2: "ownTargetsVisited parseDate today visits (\<lambda>c. c = 2)
           = targetsVisited parseDate today visits (\<lambda>c. c = 2)"
      using h by (rule own_targets_all) simp
    have 3: "ownTargetsVisited parseDate today visits (\<lambda>c. 3 \<le> c)
           = targetsVisited parseDate today visits (\<lambda>c. 3 \<le> c)"
      using h by (rule own_targets_all) simp
    show ?thesis
      by (simp only: own 1 2 3)
  qed
  show "rep_visitFrequency parseDate today visits = \<lparr>freq1 = 1, freq2 = 1, freq3 = 1\<rparr>"
    if "a \<noteq> b \<and> a \<noteq> c \<and> b \<noteq> c
          \<and> a \<notin> set objectPrototypeMembers \<and> b \<notin> set objectPrototypeMembers
          \<and> c \<notin> set objectPrototypeMembers
          \<and> timesVisited parseDate today visits a = 1
          \<and> timesVisited parseDate today visits b = 2
          \<and> 3 \<le> timesVisited parseDate today visits c
          \<and> (\<forall>n. n \<notin> {a, b, c} \<longrightarrow> timesVisited parseDate today visits n = 0)" for a b c
    using that one_two_three [of a b c parseDate today visits]
    by (simp only: rep_visitFrequency_def) blast
  show "rep_visitFrequency
        (\<lambda>s. if s = ''2024-05-10T09:00:00'' then Some \<lparr>fullYear = 2024, monthIndex = 4, dayOfMonth = 10, timeOfDay = 32400000\<rparr> else None)
        \<lparr>fullYear = 2024, monthIndex = 4, dayOfMonth = 20, timeOfDay = 43200000\<rparr>
        [\<lparr>report_id = ''1'', report_type = DOCTOR_VISIT, repName = ''Rep One'', regionName = ''North'',
          targetName = ''constructor'', report_notes = ''ok'', report_date = ''2024-05-10T09:00:00''\<rparr>]
       = \<lparr>freq1 = 0, freq2 = 0, freq3 = 0\<rparr>"
    by (rule prototype_name_not_counted)
  show "targetsVisited
        (\<lambda>s. if s = ''2024-05-10T09:00:00'' then Some \<lparr>fullYear = 2024, monthIndex = 4, dayOfMonth = 10, timeOfDay = 32400000\<rparr> else None)
        \<lparr>fullYear = 2024, monthIndex = 4, dayOfMonth = 20, timeOfDay = 43200000\<rparr>
        [\<lparr>report_id = ''1'', report_type = DOCTOR_VISIT, repName = ''Rep One'', regionName = ''North'',
          targetName = ''constructor'', report_notes = ''ok'', report_date = ''2024-05-10T09:00:00''\<rparr>]
        (\<lambda>c. c = 1)
       = 1"
    by (rule prototype_name_visited_once)
qed

theorem monthly_visit_frequency_witness:
  "rep_visitFrequency
      (\<lambda>s. if s = ''2024-05-01T00:00:00'' then Some \<lparr>fullYear = 2024, monthIndex = 4, dayOfMonth = 1, timeOfDay = 0\<rparr>
          else if s = ''2024-05-10T09:00:00'' then Some \<lparr>fullYear = 2024, monthIndex = 4, dayOfMonth = 10, timeOfDay = 32400000\<rparr>
          else if s = ''2024-05-20T12:00:00'' then Some \<lparr>fullYear = 2024, monthIndex = 4, dayOfMonth = 20, timeOfDay = 43200000\<rparr>
          else if s = ''2024-04-30T09:00:00'' then Some \<lparr>fullYear = 2024, monthIndex = 3, dayOfMonth = 30, timeOfDay = 32400000\<rparr>
          else None)
      \<lparr>fullYear = 2024, monthIndex = 4, dayOfMonth = 20, timeOfDay = 43200000\<rparr>
      [\<lparr>report_id = ''1'', report_type = DOCTOR_VISIT, repName = ''Rep One'', regionName = ''North'',
        targetName = ''Dr A'', report_notes = ''ok'', report_date = ''2024-05-01T00:00:00''\<rparr>,
       \<lparr>report_id = ''2'', report_type = DOCTOR_VISIT, repName = ''Rep One'', regionName = ''North'',
        targetName = ''Dr B'', report_notes = ''ok'', report_date = ''2024-05-10T09:00:00''\<rparr>,
       \<lparr>report_id = ''3'', report_type = DOCTOR_VISIT, repName = ''Rep One'', regionName = ''North'',
        targetName = ''Dr B'', report_notes = ''ok'', report_date = ''2024-05-20T12:00:00''\<rparr>,
       \<lparr>report_id = ''4'', report_type = DOCTOR_VISIT, repName = ''Rep One'', regionName = ''North'',
        targetName = ''Dr C'', report_notes = ''ok'', report_date = ''2024-05-10T09:00:00''\<rparr>,
       \<lparr>report_id = ''5'', report_type = DOCTOR_VISIT, repName = ''Rep One'', regionName = ''North'',
        targetName = ''Dr C'', report_notes = ''ok'', report_date = ''2024-05-10T09:00:00''\<rparr>,
       \<lparr>report_id = ''6'', report_type = DOCTOR_VISIT, repName = ''Rep One'', regionName = ''North'',
        targetName = ''Dr C'', report_notes = ''ok'', report_date = ''2024-05-20T12:00:00''\<rparr>,
       \<lparr>report_id = ''7'', report_type = PHARMACY_VISIT, repName = ''Rep One'', regionName = ''North'',
        targetName = ''Pharmacy D'', report_notes = ''ok'', report_date = ''2024-05-10T09:00:00''\<rparr>,
       \<lparr>report_id = ''8'', report_type = DOCTOR_VISIT, repName = ''Rep One'', regionName = ''North'',
        targetName = ''Dr A'', report_notes = ''ok'', report_date = ''2024-04-30T09:00:00''\<rparr>,
       \<lparr>report_id = ''9'', report_type = DOCTOR_VISIT, repName = ''Rep One'', regionName = ''North'',
        targetName = ''Dr E'', report_notes = ''ok'', report_date = ''not a date''\<rparr>]
    = \<lparr>freq1 = 1, freq2 = 1, freq3 = 1\<rparr>
   \<and> dateLe (startOfMonth \<lparr>fullYear = 2024, monthIndex = 4, dayOfMonth = 20, timeOfDay = 43200000\<rparr>) \<lparr>fullYear = 2024, monthIndex = 4, dayOfMonth = 20, timeOfDay = 43200000\<rparr>"
proof -
  let ?P = "(\<lambda>s. if s = ''2024-05-01T00:00:00'' then Some \<lparr>fullYear = 2024, monthIndex = 4, dayOfMonth = 1, timeOfDay = 0\<rparr>
          else if s = ''2024-05-10T09:00:00'' then Some \<lparr>fullYear = 2024, monthIndex = 4, dayOfMonth = 10, timeOfDay = 32400000\<rparr>
          else if s = ''2024-05-20T12:00:00'' then Some \<lparr>fullYear = 2024, monthIndex = 4, dayOfMonth = 20, timeOfDay = 43200000\<rparr>
          else if s = ''2024-04-30T09:00:00'' then Some \<lparr>fullYear = 2024, monthIndex = 3, dayOfMonth = 30, timeOfDay = 32400000\<rparr>
          else None)"
  let ?T = "\<lparr>fullYear = 2024, monthIndex = 4, dayOfMonth = 20, timeOfDay = 43200000\<rparr>"
  let ?V = "[\<lparr>report_id = ''1'', report_type = DOCTOR_VISIT, repName = ''Rep One'', regionName = ''North'',
        targetName = ''Dr A'', report_notes = ''ok'', report_date = ''2024-05-01T00:00:00''\<rparr>,
       \<lparr>report_id = ''2'', report_type = DOCTOR_VISIT, repName = ''Rep One'', regionName = ''North'',
        targetName = ''Dr B'', report_notes = ''ok'', report_date = ''2024-05-10T09:00:00''\<rparr>,
       \<lparr>report_id = ''3'', report_type = DOCTOR_VISIT, repName = ''Rep One'', regionName = ''North'',
        targetName = ''Dr B'', report_notes = ''ok'', report_date = ''2024-05-20T12:00:00''\<rparr>,
       \<lparr>report_id = ''4'', report_type = DOCTOR_VISIT, repName = ''Rep One'', regionName = ''North'',
        targetName = ''Dr C'', report_notes = ''ok'', report_date = ''2024-05-10T09:00:00''\<rparr>,
       \<lparr>report_id = ''5'', report_type = DOCTOR_VISIT, repName = ''Rep One'', regionName = ''North'',
        targetName = ''Dr C'', report_notes = ''ok'', report_date = ''2024-05-10T09:00:00''\<rparr>,
       \<lparr>report_id = ''6'', report_type = DOCTOR_VISIT, repName = ''Rep One'', regionName = ''North'',
        targetName = ''Dr C'', report_notes = ''ok'', report_date = ''2024-05-20T12:00:00''\<rparr>,
       \<lparr>report_id = ''7'', report_type = PHARMACY_VISIT, repName = ''Rep One'', regionName = ''North'',
        targetName = ''Pharmacy D'', report_notes = ''ok'', report_date = ''2024-05-10T09:00:00''\<rparr>,
       \<lparr>report_id = ''8'', report_type = DOCTOR_VISIT, repName = ''Rep One'', regionName = ''North'',
        targetName = ''Dr A'', report_notes = ''ok'', report_date = ''2024-04-30T09:00:00''\<rparr>,
       \<lparr>report_id = ''9'', report_type = DOCTOR_VISIT, repName = ''Rep One'', regionName = ''North'',
        targetName = ''Dr E'', report_notes = ''ok'', report_date = ''not a date''\<rparr>]"
  have a: "timesVisited ?P ?T ?V ''Dr A'' = 1"
    by (simp add: timesVisited_def countsThisMonth_def dateLe_def startOfMonth_def)
  have b: "timesVisited ?P ?T ?V ''Dr B'' = 2"
    by (simp add: timesVisited_def countsThisMonth_def dateLe_def startOfMonth_def)
  have c: "3 \<le> timesVisited ?P ?T ?V ''Dr C''"
    by (simp add: timesVisited_def countsThisMonth_def dateLe_def startOfMonth_def)
  have others: "\<forall>n. n \<notin> {''Dr A'', ''Dr B'', ''Dr C''} \<longrightarrow> timesVisited ?P ?T ?V n = 0"
    by (simp add: timesVisited_def countsThisMonth_def dateLe_def startOfMonth_def)
  have own: "''Dr A'' \<notin> set objectPrototypeMembers" "''Dr B'' \<notin> set objectPrototypeMembers"
            "''Dr C'' \<notin> set objectPrototypeMembers"
    by (simp_all add: objectPrototypeMembers_def objectPrototypeFunctions_def)
  have day: "1 \<le> dayOfMonth ?T"
    by simp
  note t = monthly_visit_frequency [of ?P ?T ?V]
  note window = t [THEN conjunct2, THEN conjunct2, THEN conjunct2, THEN conjunct2,
                   THEN conjunct2, THEN conjunct2, THEN conjunct1, rule_format]
  note buckets = t [THEN conjunct2, THEN conjunct2, THEN conjunct2, THEN conjunct2,
                    THEN conjunct2, THEN conjunct2, THEN conjunct2, THEN conjunct2,
                    THEN conjunct1, rule_format, of "''Dr A''" "''Dr B''" "''Dr C''"]
  have 1: "dateLe (startOfMonth ?T) ?T"
    using day by (rule window)
  have 2: "rep_visitFrequency ?P ?T ?V = \<lparr>freq1 = 1, freq2 = 1, freq3 = 1\<rparr>"
  proof (rule buckets, intro conjI)
    show "''Dr A'' \<noteq> ''Dr B''" by simp
    show "''Dr A'' \<noteq> ''Dr C''" by simp
    show "''Dr B'' \<noteq> ''Dr C''" by simp
    show "''Dr A'' \<notin> set objectPrototypeMembers" by (rule own)
    show "''Dr B'' \<notin> set objectPrototypeMembers" by (rule own)
    show "''Dr C'' \<notin> set objectPrototypeMembers" by (rule own)
    show "timesVisited ?P ?T ?V ''Dr A'' = 1" by (rule a)
    show "timesVisited ?P ?T ?V ''Dr B'' = 2" by (rule b)
    show "3 \<le> timesVisited ?P ?T ?V ''Dr C''" by (rule c)
    show "\<forall>n. n \<notin> {''Dr A'', ''Dr B'', ''Dr C''} \<longrightarrow> timesVisited ?P ?T ?V n = 0" by (rule others)
  qed
  from 2 1 show ?thesis
    by (rule conjI)
qed

end
